theory Spec2Isabelle
  imports Complex_Main "HOL-Library.AList" "HOL-Library.Sublist"
begin

section \<open>EasyConduit bot: the persisted document and the metric aggregators\<close>

text \<open>
  The bot of \<^verbatim>\<open>src/bot/main.py\<close> keeps one dictionary \<^verbatim>\<open>state\<close>, loaded from and saved to
  \<^verbatim>\<open>bot_state.json\<close>. The record below is the typed view of that dictionary: one field per
  key the program uses. A key that may be absent is an \<open>option\<close> (\<open>None\<close>: absent), read
  through \<open>get_or\<close> where the source reads it with \<^verbatim>\<open>state.get(key, default)\<close>.
  The three dictionaries of message ids are association lists keyed by the chat id (the source
  keys them by \<^verbatim>\<open>str(chat_id)\<close>, which is injective); an absent dictionary and an empty one
  are the same value, so \<^verbatim>\<open>state.setdefault(key, {})\<close> is the identity.

  The values of a metrics sample, the byte counters of the state and the bandwidth limit are
  Python floats, modelled as \<open>py_float\<close> below. Clock readings and the daily usage counter are
  \<open>real\<close>.
\<close>

subsection \<open>Python floats\<close>

text \<open>
  A Python float is an IEEE 754 binary64 value: a finite number, an infinity or NaN. \<open>Fin x\<close>
  stands for the finite value \<open>x\<close>; the sign of zero is not kept. \<open>round64\<close> rounds an exact
  result to binary64: to the nearest multiple of the unit in the last place of its binade (53
  significant bits, smallest unit \<open>2 powi (- 1074)\<close>), a tie going to the even multiple, and
  to an infinity when the rounded magnitude reaches \<open>2 ^ 1024\<close>.
\<close>

datatype py_float = Fin real | PInf | NInf | NaN

definition round_half_even :: "real \<Rightarrow> int" where
  "round_half_even q =
     (let f = \<lfloor>q\<rfloor>; d = q - of_int f
      in if d < 1 / 2 then f
         else if 1 / 2 < d then f + 1
         else if even f then f else f + 1)"

definition round64 :: "real \<Rightarrow> py_float" where
  "round64 x =
     (if x = 0 then Fin 0
      else (let e = max (\<lfloor>log 2 \<bar>x\<bar>\<rfloor> - 52) (- 1074);
                y = of_int (round_half_even (x / 2 powi e)) * 2 powi e
            in if 2 ^ 1024 \<le> \<bar>y\<bar> then (if 0 < x then PInf else NInf) else Fin y))"

text \<open>\<^verbatim>\<open>a + b\<close>, \<^verbatim>\<open>- a\<close>, \<^verbatim>\<open>a - b\<close> and \<^verbatim>\<open>a >= b\<close> on floats; a comparison with NaN is false.\<close>

fun fadd :: "py_float \<Rightarrow> py_float \<Rightarrow> py_float" where
  "fadd NaN b = NaN"
| "fadd a NaN = NaN"
| "fadd PInf NInf = NaN"
| "fadd NInf PInf = NaN"
| "fadd PInf b = PInf"
| "fadd a PInf = PInf"
| "fadd NInf b = NInf"
| "fadd a NInf = NInf"
| "fadd (Fin x) (Fin y) = round64 (x + y)"

fun fneg :: "py_float \<Rightarrow> py_float" where
  "fneg (Fin x) = Fin (- x)"
| "fneg PInf = NInf"
| "fneg NInf = PInf"
| "fneg NaN = NaN"

definition fsub :: "py_float \<Rightarrow> py_float \<Rightarrow> py_float" where
  "fsub a b = fadd a (fneg b)"

fun fge :: "py_float \<Rightarrow> py_float \<Rightarrow> bool" where
  "fge NaN b = False"
| "fge a NaN = False"
| "fge PInf b = True"
| "fge a NInf = True"
| "fge NInf b = False"
| "fge a PInf = False"
| "fge (Fin x) (Fin y) = (y \<le> x)"

text \<open>\<^verbatim>\<open>int(x)\<close> of a float truncates towards zero; it raises on an infinity and on NaN.\<close>

definition py_trunc :: "py_float \<Rightarrow> int option" where
  "py_trunc v =
     (case v of
        Fin x \<Rightarrow> Some (if 0 \<le> x then \<lfloor>x\<rfloor> else \<lceil>x\<rceil>)
      | _ \<Rightarrow> None)"

subsection \<open>The state\<close>

type_synonym metrics = "(string \<times> py_float) list"

type_synonym sample = "py_float \<times> py_float"

record bot_state =
  dashboard_message_ids :: "(int \<times> int) list"
  status_message_ids :: "(int \<times> int) list"
  command_message_ids :: "(int \<times> int) list"
  last_seen_bytes_uploaded :: "py_float option"
  last_seen_bytes_downloaded :: "py_float option"
  lifetime_bytes_uploaded :: "py_float option"
  lifetime_bytes_downloaded :: "py_float option"
  traffic_history :: "sample list option"
  lifetime_history :: "sample list option"
  client_seconds_today :: "real option"
  last_day_utc :: "string option"
  last_good_metrics :: "metrics option"
  last_update_id :: "int option"
  last_status_press :: "(int \<times> real) list"

text \<open>The empty document \<^verbatim>\<open>{}\<close>: every key absent.\<close>

definition empty_state :: bot_state where
  "empty_state =
     \<lparr>dashboard_message_ids = [], status_message_ids = [], command_message_ids = [],
      last_seen_bytes_uploaded = None, last_seen_bytes_downloaded = None,
      lifetime_bytes_uploaded = None, lifetime_bytes_downloaded = None,
      traffic_history = None, lifetime_history = None,
      client_seconds_today = None, last_day_utc = None,
      last_good_metrics = None, last_update_id = None, last_status_press = []\<rparr>"

text \<open>\<^verbatim>\<open>d.get(key, default)\<close> on an optional field and on a metrics dictionary.\<close>

definition get_or :: "'a option \<Rightarrow> 'a \<Rightarrow> 'a" where
  "get_or v d = (case v of None \<Rightarrow> d | Some x \<Rightarrow> x)"

definition metrics_get :: "metrics \<Rightarrow> string \<Rightarrow> py_float \<Rightarrow> py_float" where
  "metrics_get m k d = get_or (map_of m k) d"

subsection \<open>Lifetime traffic (\<^verbatim>\<open>update_lifetime_traffic\<close>)\<close>

definition update_lifetime_traffic :: "bot_state \<Rightarrow> metrics \<Rightarrow> bot_state" where
  "update_lifetime_traffic state metrics =
     (let cur_up = metrics_get metrics ''conduit_bytes_uploaded'' (Fin 0);
          cur_down = metrics_get metrics ''conduit_bytes_downloaded'' (Fin 0);
          last_up = get_or (last_seen_bytes_uploaded state) (Fin 0);
          last_down = get_or (last_seen_bytes_downloaded state) (Fin 0);
          state1 = (if fge cur_up last_up
                    then state\<lparr>lifetime_bytes_uploaded :=
                           Some (fadd (get_or (lifetime_bytes_uploaded state) (Fin 0))
                                   (fsub cur_up last_up))\<rparr>
                    else state);
          state2 = (if fge cur_down last_down
                    then state1\<lparr>lifetime_bytes_downloaded :=
                           Some (fadd (get_or (lifetime_bytes_downloaded state1) (Fin 0))
                                   (fsub cur_down last_down))\<rparr>
                    else state1)
      in state2\<lparr>last_seen_bytes_uploaded := Some cur_up,
                last_seen_bytes_downloaded := Some cur_down\<rparr>)"

text \<open>
  What the rest of the program reads as the totals and the last counters:
  \<^verbatim>\<open>state.get("lifetime_bytes_uploaded", 0.0)\<close> and its three siblings.
\<close>

definition lifetime_up :: "bot_state \<Rightarrow> py_float" where
  "lifetime_up s = get_or (lifetime_bytes_uploaded s) (Fin 0)"

definition lifetime_down :: "bot_state \<Rightarrow> py_float" where
  "lifetime_down s = get_or (lifetime_bytes_downloaded s) (Fin 0)"








definition fin_value :: "py_float \<Rightarrow> real" where
  "fin_value v = (case v of Fin x \<Rightarrow> x | _ \<Rightarrow> 0)"

subsection \<open>Daily usage (\<^verbatim>\<open>update_client_seconds_today\<close>)\<close>

text \<open>
  The first argument is the value of \<^verbatim>\<open>time.strftime("%Y-%m-%d", time.gmtime())\<close> at the
  call: the clock is an input of the model.
\<close>

definition update_client_seconds_today ::
  "string \<Rightarrow> bot_state \<Rightarrow> int \<Rightarrow> real \<Rightarrow> bot_state" where
  "update_client_seconds_today today state n_connected interval_sec =
     (let state1 = (if last_day_utc state \<noteq> Some today
                    then state\<lparr>client_seconds_today := Some 0, last_day_utc := Some today\<rparr>
                    else state)
      in state1\<lparr>client_seconds_today :=
           Some (get_or (client_seconds_today state1) 0 + real_of_int n_connected * interval_sec)\<rparr>)"

subsection \<open>History buffers (\<^verbatim>\<open>append_metrics_history\<close>, \<^verbatim>\<open>append_lifetime_history\<close>)\<close>

definition HISTORY_MAX :: nat where
  "HISTORY_MAX = 40"

text \<open>The slice \<^verbatim>\<open>xs[-n:]\<close> for a positive \<open>n\<close>: the last \<open>n\<close> elements, or all of a shorter list.\<close>

definition py_last_n :: "nat \<Rightarrow> 'a list \<Rightarrow> 'a list" where
  "py_last_n n xs = drop (length xs - n) xs"

definition append_metrics_history :: "bot_state \<Rightarrow> metrics \<Rightarrow> bot_state" where
  "append_metrics_history state metrics =
     (let up = metrics_get metrics ''conduit_bytes_uploaded'' (Fin 0);
          down = metrics_get metrics ''conduit_bytes_downloaded'' (Fin 0);
          traffic = get_or (traffic_history state) [] @ [(up, down)]
      in if length traffic > HISTORY_MAX
         then state\<lparr>traffic_history := Some (py_last_n HISTORY_MAX traffic)\<rparr>
         else state\<lparr>traffic_history := Some traffic\<rparr>)"

definition append_lifetime_history :: "bot_state \<Rightarrow> bot_state" where
  "append_lifetime_history state =
     (let hist = get_or (lifetime_history state) [] @
                   [(get_or (lifetime_bytes_uploaded state) (Fin 0),
                     get_or (lifetime_bytes_downloaded state) (Fin 0))]
      in if length hist > HISTORY_MAX
         then state\<lparr>lifetime_history := Some (py_last_n HISTORY_MAX hist)\<rparr>
         else state\<lparr>lifetime_history := Some hist\<rparr>)"

text \<open>A sample as the metrics dictionary \<^verbatim>\<open>append_metrics_history\<close> reads it.\<close>

definition traffic_sample :: "sample \<Rightarrow> metrics" where
  "traffic_sample p =
     [(''conduit_bytes_uploaded'', fst p), (''conduit_bytes_downloaded'', snd p)]"

text \<open>
  Appending a sequence of samples: one \<^verbatim>\<open>append_metrics_history\<close> per sample; for the
  lifetime buffer, the totals are the sample, so each step stores them and appends.
\<close>

definition append_all_metrics :: "bot_state \<Rightarrow> sample list \<Rightarrow> bot_state" where
  "append_all_metrics s ps = foldl (\<lambda>st p. append_metrics_history st (traffic_sample p)) s ps"

definition append_all_lifetime :: "bot_state \<Rightarrow> sample list \<Rightarrow> bot_state" where
  "append_all_lifetime s ps =
     foldl (\<lambda>st p. append_lifetime_history
                     (st\<lparr>lifetime_bytes_uploaded := Some (fst p),
                         lifetime_bytes_downloaded := Some (snd p)\<rparr>)) s ps"

section \<open>Python text operations\<close>

text \<open>
  A Python \<^verbatim>\<open>str\<close> is a \<open>string\<close>. In the text the program parses (the config file, the
  metrics body, API error messages, button tokens) a \<open>char\<close> is a code point below 256; text
  with other code points is outside the model. The texts the program only sends (messages,
  button labels) are carried as their UTF-8 bytes.
\<close>

abbreviation LF :: char where
  "LF \<equiv> CHR 0x0A"

abbreviation CR :: char where
  "CR \<equiv> CHR 0x0D"

text \<open>\<^verbatim>\<open>str.isspace\<close> on one character: the whitespace code points below 256.\<close>

definition py_isspace :: "char \<Rightarrow> bool" where
  "py_isspace c =
     (c \<in> set [CHR 0x09, CHR 0x0A, CHR 0x0B, CHR 0x0C, CHR 0x0D, CHR 0x1C, CHR 0x1D,
               CHR 0x1E, CHR 0x1F, CHR 0x20, CHR 0x85, CHR 0xA0])"

text \<open>\<^verbatim>\<open>s.strip()\<close>.\<close>

definition py_strip :: "string \<Rightarrow> string" where
  "py_strip s = rev (dropWhile py_isspace (rev (dropWhile py_isspace s)))"

text \<open>\<^verbatim>\<open>s.split(sep, 1)\<close> for a one-character \<open>sep\<close> that occurs in \<open>s\<close>: the two parts.\<close>

definition py_split_first :: "char \<Rightarrow> string \<Rightarrow> string \<times> string" where
  "py_split_first sep s =
     (takeWhile (\<lambda>c. c \<noteq> sep) s, tl (dropWhile (\<lambda>c. c \<noteq> sep) s))"

text \<open>
  Reading a text file opened with \<^verbatim>\<open>open(path, "r")\<close>: the universal-newlines translation
  (\<^verbatim>\<open>\r\n\<close> and \<^verbatim>\<open>\r\<close> become \<^verbatim>\<open>\n\<close>), then the lines that \<^verbatim>\<open>for line in f\<close> yields, each with
  its terminator.
\<close>

fun universal_newlines :: "string \<Rightarrow> string" where
  "universal_newlines [] = []"
| "universal_newlines [c] = (if c = CR then [LF] else [c])"
| "universal_newlines (c # d # cs) =
     (if c = CR \<and> d = LF then LF # universal_newlines cs
      else if c = CR then LF # universal_newlines (d # cs)
      else c # universal_newlines (d # cs))"

fun file_lines :: "string \<Rightarrow> string list" where
  "file_lines [] = []"
| "file_lines (c # cs) =
     (if c = LF then [LF] # file_lines cs
      else (case file_lines cs of [] \<Rightarrow> [[c]] | l # ls \<Rightarrow> (c # l) # ls))"

definition read_lines :: "string \<Rightarrow> string list" where
  "read_lines content = file_lines (universal_newlines content)"

section \<open>The config store (\<^verbatim>\<open>load_conduit_env\<close>, \<^verbatim>\<open>set_conduit_param\<close>)\<close>

text \<open>The exceptions that leave a function of the model.\<close>

datatype py_exception =
    ValueError | IndexError | NameError string | UnicodeDecodeError | OSError

text \<open>
  What \<^verbatim>\<open>load_conduit_env\<close> finds at its path: no regular file (\<^verbatim>\<open>os.path.isfile\<close> is false), a
  file that \<^verbatim>\<open>open\<close> or the iteration over its lines cannot read (\<^verbatim>\<open>OSError\<close> from \<^verbatim>\<open>open\<close> or
  the read, \<^verbatim>\<open>UnicodeDecodeError\<close> from the decoder), or a file that is read to its end, with
  its decoded text.
\<close>

datatype file_read = NoFile | ReadError py_exception | FileText string

text \<open>
  Both functions start their read loop the same way (lines 857 to 862 and 1146 to 1150): strip
  the line, skip it when it is empty, has no \<^verbatim>\<open>=\<close> or starts with \<^verbatim>\<open>#\<close>, else split it at the
  first \<^verbatim>\<open>=\<close> and strip both parts. \<open>env_line_kv\<close> is that common head; \<open>None\<close> is
  \<^verbatim>\<open>continue\<close>.
\<close>

definition env_line_kv :: "string \<Rightarrow> (string \<times> string) option" where
  "env_line_kv raw =
     (let line = py_strip raw
      in if line = [] \<or> CHR ''='' \<notin> set line \<or> prefix ''#'' line then None
         else (let (k, v) = py_split_first (CHR ''='') line
               in Some (py_strip k, py_strip v)))"

text \<open>
  \<^verbatim>\<open>int(v)\<close> and \<^verbatim>\<open>float(v)\<close> are Python built-ins: the model takes them as the parameters
  \<open>py_int\<close> and \<open>py_float\<close>, \<open>None\<close> where the built-in raises \<^verbatim>\<open>ValueError\<close> (which the
  source catches). \<^verbatim>\<open>float(v)\<close> gives any float, also an infinity or NaN.

  The two \<^verbatim>\<open>try\<close> blocks are around \<^verbatim>\<open>int(v)\<close> and \<^verbatim>\<open>float(v)\<close> alone: an exception of \<^verbatim>\<open>open\<close> or
  of the iteration (lines 855 and 856) leaves the function, whatever was parsed before.
\<close>

definition load_conduit_env_line ::
  "(string \<Rightarrow> int option) \<Rightarrow> (string \<Rightarrow> py_float option) \<Rightarrow> int \<times> py_float \<Rightarrow> string \<Rightarrow>
   int \<times> py_float" where
  "load_conduit_env_line py_int py_float acc raw =
     (case env_line_kv raw of
        None \<Rightarrow> acc
      | Some (k, v) \<Rightarrow>
          if k = ''MAX_CLIENTS''
          then (case py_int v of Some n \<Rightarrow> (n, snd acc) | None \<Rightarrow> acc)
          else if k = ''BANDWIDTH''
          then (case py_float v of Some x \<Rightarrow> (fst acc, x) | None \<Rightarrow> acc)
          else acc)"

definition load_conduit_env ::
  "(string \<Rightarrow> int option) \<Rightarrow> (string \<Rightarrow> py_float option) \<Rightarrow> file_read \<Rightarrow>
   py_exception + int \<times> py_float" where
  "load_conduit_env py_int py_float file =
     (case file of
        NoFile \<Rightarrow> Inr (50, Fin 10)
      | ReadError e \<Rightarrow> Inl e
      | FileText content \<Rightarrow>
          Inr (foldl (load_conduit_env_line py_int py_float) (50, Fin 10) (read_lines content)))"

text \<open>
  For \<^verbatim>\<open>set_conduit_param\<close> the file is a \<open>string option\<close>: \<open>None\<close> when \<^verbatim>\<open>os.path.isfile\<close> is
  false, else the content of a file that can be read and written.
  \<^verbatim>\<open>set_conduit_param\<close> reads the file into a dictionary (in insertion order), stores the key and
  writes every pair back as \<^verbatim>\<open>k=v\<close> and a newline. The result is the new content of the file.
\<close>

definition read_env_dict :: "string option \<Rightarrow> (string \<times> string) list" where
  "read_env_dict file =
     (case file of
        None \<Rightarrow> []
      | Some content \<Rightarrow>
          foldl (\<lambda>d raw. case env_line_kv raw of
                            None \<Rightarrow> d
                          | Some (k, v) \<Rightarrow> AList.update k v d) [] (read_lines content))"

definition write_env_dict :: "(string \<times> string) list \<Rightarrow> string" where
  "write_env_dict d = concat (map (\<lambda>(k, v). k @ ''='' @ v @ [LF]) d)"

definition set_conduit_param :: "string option \<Rightarrow> string \<Rightarrow> string \<Rightarrow> string" where
  "set_conduit_param file key val =
     write_env_dict (AList.update key val (read_env_dict file))"

text \<open>
  The entries of a file in file order, as both read loops see them, and the values of one key
  that a parser accepts.
\<close>

definition env_entries :: "string \<Rightarrow> (string \<times> string) list" where
  "env_entries content = List.map_filter env_line_kv (read_lines content)"

definition parsed_values :: "(string \<Rightarrow> 'a option) \<Rightarrow> string \<Rightarrow> (string \<times> string) list \<Rightarrow> 'a list" where
  "parsed_values parse key entries =
     List.map_filter (\<lambda>(k, v). if k = key then parse v else None) entries"

text \<open>
  A reader of plain decimal numbers, to run the model on concrete files: it accepts a non-empty
  string of ASCII digits, as \<^verbatim>\<open>int\<close> and \<^verbatim>\<open>float\<close> do (the built-ins accept more).
\<close>

definition digit_value :: "char \<Rightarrow> nat option" where
  "digit_value c = map_of (zip ''0123456789'' [0, 1, 2, 3, 4, 5, 6, 7, 8, 9]) c"

fun decimal_value :: "nat \<Rightarrow> string \<Rightarrow> nat option" where
  "decimal_value acc [] = Some acc"
| "decimal_value acc (c # cs) =
     (case digit_value c of None \<Rightarrow> None | Some d \<Rightarrow> decimal_value (10 * acc + d) cs)"

definition int_of_decimal :: "string \<Rightarrow> int option" where
  "int_of_decimal s = (if s = [] then None else map_option int (decimal_value 0 s))"

definition float_of_decimal :: "string \<Rightarrow> py_float option" where
  "float_of_decimal s =
     (if s = [] then None else map_option (\<lambda>n. round64 (real n)) (decimal_value 0 s))"

subsection \<open>Notions used to reason about the config store\<close>




section \<open>The chat UI: Telegram calls, texts and keyboards\<close>

text \<open>
  \<^verbatim>\<open>s.lower()\<close>, \<^verbatim>\<open>needle in s\<close>, \<^verbatim>\<open>s.split(sep, n)\<close>, \<^verbatim>\<open>xs[i]\<close>, \<^verbatim>\<open>str(n)\<close> and
  \<^verbatim>\<open>sep.join(xs)\<close>. Lower-casing maps the ASCII capitals; the patterns searched in a
  lower-cased text are ASCII.
\<close>

definition py_lower_char :: "char \<Rightarrow> char" where
  "py_lower_char c =
     (case map_of (zip ''ABCDEFGHIJKLMNOPQRSTUVWXYZ'' ''abcdefghijklmnopqrstuvwxyz'') c of
        Some l \<Rightarrow> l | None \<Rightarrow> c)"

definition py_lower :: "string \<Rightarrow> string" where
  "py_lower s = map py_lower_char s"

fun py_in :: "string \<Rightarrow> string \<Rightarrow> bool" where
  "py_in needle [] = (needle = [])"
| "py_in needle (c # cs) = (prefix needle (c # cs) \<or> py_in needle cs)"

fun py_split :: "char \<Rightarrow> nat \<Rightarrow> string \<Rightarrow> string list" where
  "py_split sep 0 s = [s]"
| "py_split sep (Suc n) s =
     (if sep \<in> set s
      then takeWhile (\<lambda>c. c \<noteq> sep) s # py_split sep n (tl (dropWhile (\<lambda>c. c \<noteq> sep) s))
      else [s])"

definition py_index :: "'a list \<Rightarrow> nat \<Rightarrow> 'a option" where
  "py_index xs i = (if i < length xs then Some (xs ! i) else None)"

function str_nat :: "nat \<Rightarrow> string" where
  "str_nat n =
     (if n < 10 then [''0123456789'' ! n]
      else str_nat (n div 10) @ [''0123456789'' ! (n mod 10)])"
  by pat_completeness auto
termination
  by (relation "measure id") auto

declare str_nat.simps [simp del]

definition py_str :: "int \<Rightarrow> string" where
  "py_str i = (if i < 0 then ''-'' @ str_nat (nat (- i)) else str_nat (nat i))"

fun py_join :: "string \<Rightarrow> string list \<Rightarrow> string" where
  "py_join sep [] = []"
| "py_join sep [x] = x"
| "py_join sep (x # y # ys) = x @ sep @ py_join sep (y # ys)"

subsection \<open>Texts and keyboards\<close>

text \<open>
  A keyboard is the list of rows of \<^verbatim>\<open>inline_keyboard\<close>; a button is its label and its
  \<^verbatim>\<open>callback_data\<close>. The texts are the literals of the source, named here where the source writes
  them inline; a character outside ASCII stands as its UTF-8 bytes.
\<close>

type_synonym button = "string \<times> string"

type_synonym keyboard = "button list list"

definition DASHBOARD_VERSION :: "string" where
  "DASHBOARD_VERSION =
     ''1.0''"

definition REPO_URL :: "string" where
  "REPO_URL =
     ''https://github.com/0xn0c0de/easyconduit''"

definition CMD_DESK_MAIN_TEXT :: "string" where
  "CMD_DESK_MAIN_TEXT =
     ''EasyConduit '' @ [CHR 0xE2, CHR 0x80, CHR 0x93] @ '' Control Panel\<newline>(Use the buttons below.)''"

definition build_main_keyboard :: "keyboard" where
  "build_main_keyboard =
     [[([CHR 0xF0, CHR 0x9F, CHR 0x94, CHR 0x8D] @ '' Status'', ''cmd_status'')],
       [([CHR 0xE2, CHR 0x9A, CHR 0x99] @ '' Configs'', ''cmd_configs'')],
       [([CHR 0xE2, CHR 0x84, CHR 0xB9] @ '' More Info'', ''cmd_info'')]]"

definition build_configs_keyboard :: "keyboard" where
  "build_configs_keyboard =
     [[([CHR 0xF0, CHR 0x9F, CHR 0x93, CHR 0x8A] @ '' Max connection limit'', ''cmd_limits'')],
       [([CHR 0xF0, CHR 0x9F, CHR 0x93, CHR 0xB6] @ '' Max bandwidth'', ''cmd_bandwidth'')],
       [([CHR 0xE2, CHR 0x99, CHR 0xBB] @ '' Restart/Start Conduit'', ''cmd_restart_conduit'')],
       [([CHR 0xE2, CHR 0x8F, CHR 0xB9] @ '' Stop Conduit'', ''cmd_stop_conduit'')],
       [([CHR 0xF0, CHR 0x9F, CHR 0x94, CHR 0x84] @ '' Update'', ''cmd_update'')],
       [([CHR 0xE2, CHR 0x9A, CHR 0xA1] @ '' Reboot server'', ''cmd_reboot'')],
       [([CHR 0xE2, CHR 0x97, CHR 0x80] @ '' Back'', ''back_main'')]]"

definition build_limits_keyboard :: "keyboard" where
  "build_limits_keyboard =
     [[(''50'', ''set_clients_50''),
        (''75'', ''set_clients_75''),
        (''100'', ''set_clients_100''),
        (''125'', ''set_clients_125'')],
       [(''150'', ''set_clients_150''),
        (''200'', ''set_clients_200''),
        (''250'', ''set_clients_250''),
        (''300'', ''set_clients_300'')],
       [([CHR 0xE2, CHR 0x97, CHR 0x80] @ '' Back'', ''back_configs'')]]"

definition build_bandwidth_keyboard :: "keyboard" where
  "build_bandwidth_keyboard =
     [[(''5 Mbps'', ''set_bw_5''),
        (''10 Mbps'', ''set_bw_10''),
        (''15 Mbps'', ''set_bw_15'')],
       [(''20 Mbps'', ''set_bw_20''),
        (''25 Mbps'', ''set_bw_25''),
        (''30 Mbps'', ''set_bw_30'')],
       [([CHR 0xE2, CHR 0x97, CHR 0x80] @ '' Back'', ''back_configs'')]]"

definition build_restart_conduit_confirm_keyboard :: "keyboard" where
  "build_restart_conduit_confirm_keyboard =
     [[([CHR 0xE2, CHR 0x9C, CHR 0x85] @ '' Yes, restart'', ''restart_conduit_confirm''),
        ([CHR 0xE2, CHR 0x9D, CHR 0x8C] @ '' Cancel'', ''restart_conduit_cancel'')]]"

definition build_stop_conduit_confirm_keyboard :: "keyboard" where
  "build_stop_conduit_confirm_keyboard =
     [[([CHR 0xE2, CHR 0x9C, CHR 0x85] @ '' Yes, stop'', ''stop_conduit_confirm''),
        ([CHR 0xE2, CHR 0x9D, CHR 0x8C] @ '' Cancel'', ''stop_conduit_cancel'')]]"

definition build_update_confirm_keyboard :: "string \<Rightarrow> keyboard" where
  "build_update_confirm_keyboard label_yes =
      [[(label_yes, ''update_confirm''),
        ([CHR 0xE2, CHR 0x9D, CHR 0x8C] @ '' Cancel'', ''update_cancel'')]]"

definition build_reboot_confirm_keyboard :: "keyboard" where
  "build_reboot_confirm_keyboard =
     [[([CHR 0xE2, CHR 0x9C, CHR 0x85] @ '' Yes, reboot server'', ''reboot_confirm''),
        ([CHR 0xE2, CHR 0x9D, CHR 0x8C] @ '' Cancel'', ''reboot_cancel'')]]"

definition NOT_AUTHORIZED_TEXT :: "string" where
  "NOT_AUTHORIZED_TEXT =
     ''Not authorized. Only the chat ID set during installation can use this bot.''"

definition CONFIGS_TEXT :: "string" where
  "CONFIGS_TEXT =
     ''Configs '' @ [CHR 0xE2, CHR 0x80, CHR 0x93] @ '' limits and Conduit control. Conduit service will restart when you change limits.''"

definition LIMITS_TEXT :: "string" where
  "LIMITS_TEXT =
     ''Max connection limit (50'' @ [CHR 0xE2, CHR 0x80, CHR 0x93] @ ''300). Conduit supports this range; service restarts after change.''"

definition BANDWIDTH_TEXT :: "string" where
  "BANDWIDTH_TEXT =
     ''Max bandwidth (5'' @ [CHR 0xE2, CHR 0x80, CHR 0x93] @ ''30 Mbps). Service restarts after change.''"

definition RESTART_CONFIRM_TEXT :: "string" where
  "RESTART_CONFIRM_TEXT =
     ''Restart (or start) Conduit service? It will apply current limits.''"

definition STOP_CONFIRM_TEXT :: "string" where
  "STOP_CONFIRM_TEXT =
     ''Stop Conduit? Dashboard will show STOPPED. You can start again via Configs '' @ [CHR 0xE2, CHR 0x86, CHR 0x92] @ '' Restart/Start Conduit.''"

definition REBOOT_CONFIRM_TEXT :: "string" where
  "REBOOT_CONFIRM_TEXT =
     ''Reboot the entire server? All connections will drop. Only use if needed.''"

definition UPDATE_TEXT :: "string" where
  "UPDATE_TEXT =
     ''EasyConduit '' @ [CHR 0xE2, CHR 0x80, CHR 0x93] @ '' Update\<newline>\<newline>You are on EasyConduit v'' @ DASHBOARD_VERSION @ ''.\<newline>\<newline>Press the button below to re-download and reinstall this version from GitHub, or Cancel to go back.\<newline>\<newline>Project: '' @ REPO_URL"

definition UPDATE_LABEL_YES :: "string" where
  "UPDATE_LABEL_YES =
     [CHR 0xF0, CHR 0x9F, CHR 0x94, CHR 0x84] @ '' Reinstall v'' @ DASHBOARD_VERSION"

definition INFO_TEXT :: "string" where
  "INFO_TEXT =
     ''EasyConduit v'' @ DASHBOARD_VERSION @ '' '' @ [CHR 0xE2, CHR 0x80, CHR 0x93] @ '' About\<newline>\<newline>This bot controls a Psiphon Conduit inproxy on this server. You see a live dashboard (image + status) and a Control Panel with buttons. Conduit limits (max clients, bandwidth) take effect after a service restart.\<newline>\<newline>Project: '' @ REPO_URL"

definition ACK_WAIT :: "string" where
  "ACK_WAIT =
     ''Please wait before refreshing again.''"

definition ACK_REFRESHING :: "string" where
  "ACK_REFRESHING =
     ''Refreshing'' @ [CHR 0xE2, CHR 0x80, CHR 0xA6]"

definition ACK_PRESET :: "string" where
  "ACK_PRESET =
     ''Use one of the preset values.''"

definition ACK_INVALID :: "string" where
  "ACK_INVALID =
     ''Invalid value.''"

definition ACK_RESTARTED :: "string" where
  "ACK_RESTARTED =
     ''Conduit restarted.''"

definition ACK_CANCELLED :: "string" where
  "ACK_CANCELLED =
     ''Cancelled.''"

definition ACK_STOPPED :: "string" where
  "ACK_STOPPED =
     ''Conduit stopped. Status updated.''"

definition ACK_UPDATING :: "string" where
  "ACK_UPDATING =
     ''Updating'' @ [CHR 0xE2, CHR 0x80, CHR 0xA6]"

definition ACK_REBOOTING :: "string" where
  "ACK_REBOOTING =
     ''Rebooting now'' @ [CHR 0xE2, CHR 0x80, CHR 0xA6]"

subsection \<open>The client\<close>

text \<open>
  One constructor per method of \<^verbatim>\<open>TelegramAPI\<close> the bot calls, with the arguments of the call.
  The network is a function \<open>telegram\<close> from the call to what it does: \<open>Inl msg\<close> when the
  method raises, \<open>msg\<close> being \<^verbatim>\<open>str(e)\<close>; \<open>Inr r\<close> when it returns, \<open>r\<close> being the message id the
  caller extracts from the response (\<open>None\<close> when the extraction raises). Within one handler no
  two calls whose answer is used have the same arguments, so a function of the call loses
  nothing.
  \<^verbatim>\<open>answer_callback_query\<close> and \<^verbatim>\<open>delete_message\<close> swallow every exception and return nothing.
\<close>

datatype call =
    SendPhoto int string string "keyboard option"
  | EditMessageMedia int int string "string option"
  | SendMessage int string "keyboard option"
  | EditMessageText int int string "keyboard option"
  | AnswerCallbackQuery string string
  | DeleteMessage int int

type_synonym telegram = "call \<Rightarrow> string + int option"

text \<open>
  The idiom \<^verbatim>\<open>try: res = api.send_...; id = res[...]["message_id"] except Exception: ...\<close>: the id
  of the message sent, \<open>None\<close> when the send or the extraction raised.
\<close>

definition sent_message_id :: "telegram \<Rightarrow> call \<Rightarrow> int option" where
  "sent_message_id api c = (case api c of Inl e \<Rightarrow> None | Inr r \<Rightarrow> r)"

text \<open>The two tests on \<^verbatim>\<open>err = str(e).lower()\<close>, and \<^verbatim>\<open>not x\<close> for a stored message id.\<close>

definition not_modified :: "string \<Rightarrow> bool" where
  "not_modified err = py_in ''message is not modified'' err"

definition target_missing :: "string \<Rightarrow> bool" where
  "target_missing err =
     (py_in ''message to edit not found'' err \<or> py_in ''message can't be edited'' err \<or>
      py_in ''message not found'' err)"

definition py_not :: "int option \<Rightarrow> bool" where
  "py_not v = (v = None \<or> v = Some 0)"

section \<open>The Chat UI Reconciler\<close>

text \<open>Each function returns the new state and the calls it made, in order.\<close>

definition delete_chat_ui_messages :: "bot_state \<Rightarrow> int \<Rightarrow> bot_state \<times> call list" where
  "delete_chat_ui_messages state chat_id =
     (let ids = [map_of (dashboard_message_ids state) chat_id,
                 map_of (status_message_ids state) chat_id,
                 map_of (command_message_ids state) chat_id]
      in (state\<lparr>dashboard_message_ids := AList.delete chat_id (dashboard_message_ids state),
                status_message_ids := AList.delete chat_id (status_message_ids state),
                command_message_ids := AList.delete chat_id (command_message_ids state)\<rparr>,
          concat (map (\<lambda>i. case i of None \<Rightarrow> [] | Some msg_id \<Rightarrow> [DeleteMessage chat_id msg_id])
                    ids)))"

definition ensure_chat_messages ::
  "telegram \<Rightarrow> bot_state \<Rightarrow> int \<Rightarrow> string \<Rightarrow> string \<Rightarrow>
   bot_state \<times> (int \<times> int \<times> int) \<times> call list" where
  "ensure_chat_messages api state chat_id status_text image_bytes =
     (let send_dash = SendPhoto chat_id [] image_bytes None;
          send_status = SendMessage chat_id status_text None;
          send_cmd = SendMessage chat_id CMD_DESK_MAIN_TEXT (Some build_main_keyboard);
          dash0 = map_of (dashboard_message_ids state) chat_id;
          status0 = map_of (status_message_ids state) chat_id;
          cmd0 = map_of (command_message_ids state) chat_id;
          (dash_id, calls1) = (if dash0 = None then (sent_message_id api send_dash, [send_dash])
                               else (dash0, []));
          (status_id, calls2) = (if status0 = None
                                 then (sent_message_id api send_status, [send_status])
                                 else (status0, []));
          (cmd_id, calls3) = (if cmd0 = None then (sent_message_id api send_cmd, [send_cmd])
                              else (cmd0, []));
          state1 = (case dash_id of
                      None \<Rightarrow> state
                    | Some d \<Rightarrow> state\<lparr>dashboard_message_ids :=
                                 AList.update chat_id d (dashboard_message_ids state)\<rparr>);
          state2 = (case status_id of
                      None \<Rightarrow> state1
                    | Some s \<Rightarrow> state1\<lparr>status_message_ids :=
                                 AList.update chat_id s (status_message_ids state1)\<rparr>);
          state3 = (case cmd_id of
                      None \<Rightarrow> state2
                    | Some c \<Rightarrow> state2\<lparr>command_message_ids :=
                                 AList.update chat_id c (command_message_ids state2)\<rparr>)
      in (state3, (get_or dash_id 0, get_or status_id 0, get_or cmd_id 0),
          calls1 @ calls2 @ calls3))"

definition update_dashboard_for_chat ::
  "telegram \<Rightarrow> bot_state \<Rightarrow> int \<Rightarrow> string \<Rightarrow> string \<Rightarrow> bot_state \<times> call list" where
  "update_dashboard_for_chat api state chat_id status_text image_bytes =
     (let dash0 = map_of (dashboard_message_ids state) chat_id;
          status0 = map_of (status_message_ids state) chat_id
      in if py_not dash0 \<or> py_not status0 then (state, [])
         else
           (let edit_dash = EditMessageMedia chat_id (get_or dash0 0) image_bytes None;
                send_dash = SendPhoto chat_id [] image_bytes None;
                (state1, calls1) =
                  (case api edit_dash of
                     Inr r \<Rightarrow> (state, [edit_dash])
                   | Inl e \<Rightarrow>
                       (let err = py_lower e
                        in if not_modified err then (state, [edit_dash])
                           else if target_missing err then
                             (case sent_message_id api send_dash of
                                Some m \<Rightarrow>
                                  (state\<lparr>dashboard_message_ids :=
                                     AList.update chat_id m (dashboard_message_ids state)\<rparr>,
                                   [edit_dash, send_dash])
                              | None \<Rightarrow> (state, [edit_dash, send_dash]))
                           else (state, [edit_dash])));
                edit_status = EditMessageText chat_id (get_or status0 0) status_text None;
                send_status = SendMessage chat_id status_text None;
                (state2, calls2) =
                  (case api edit_status of
                     Inr r \<Rightarrow> (state1, [edit_status])
                   | Inl e \<Rightarrow>
                       (let err = py_lower e
                        in if not_modified err then (state1, [edit_status])
                           else if target_missing err then
                             (case sent_message_id api send_status of
                                Some m \<Rightarrow>
                                  (state1\<lparr>status_message_ids :=
                                     AList.update chat_id m (status_message_ids state1)\<rparr>,
                                   [edit_status, send_status])
                              | None \<Rightarrow> (state1, [edit_status, send_status]))
                           else (state1, [edit_status])))
            in (state2, calls1 @ calls2)))"

definition edit_command_desk ::
  "telegram \<Rightarrow> bot_state \<Rightarrow> int \<Rightarrow> string \<Rightarrow> keyboard \<Rightarrow> bot_state \<times> call list" where
  "edit_command_desk api state chat_id text keyboard =
     (let cmd0 = map_of (command_message_ids state) chat_id;
          send = SendMessage chat_id text (Some keyboard)
      in if py_not cmd0 then
           (case sent_message_id api send of
              Some m \<Rightarrow>
                (state\<lparr>command_message_ids := AList.update chat_id m (command_message_ids state)\<rparr>,
                 [send])
            | None \<Rightarrow> (state, [send]))
         else
           (let edit = EditMessageText chat_id (get_or cmd0 0) text (Some keyboard)
            in case api edit of
                 Inr r \<Rightarrow> (state, [edit])
               | Inl e \<Rightarrow>
                   (let err = py_lower e
                    in if not_modified err then (state, [edit])
                       else if target_missing err then
                         (case sent_message_id api send of
                            Some m \<Rightarrow>
                              (state\<lparr>command_message_ids :=
                                 AList.update chat_id m (command_message_ids state)\<rparr>,
                               [edit, send])
                          | None \<Rightarrow> (state, [edit, send]))
                       else (state, [edit]))))"

subsection \<open>Notions used to state and check the reconciler's properties\<close>

text \<open>
  The three outcomes of a failed edit, read off the two tests the source makes on the lower-cased
  error text, in the source's order.
\<close>

datatype edit_failure = Unchanged | TargetMissing | Other

definition classify :: "string \<Rightarrow> edit_failure" where
  "classify e =
     (let err = py_lower e
      in if not_modified err then Unchanged
         else if target_missing err then TargetMissing
         else Other)"





definition cx_state :: bot_state where
  "cx_state = empty_state\<lparr>dashboard_message_ids := [(7, 11)], status_message_ids := [(7, 12)]\<rparr>"

definition cx_telegram :: telegram where
  "cx_telegram c =
     (case c of
        EditMessageMedia chat_id message_id image_bytes caption \<Rightarrow>
          Inl ''Telegram API error in editMessageMedia: Bad Request: message to edit not found''
      | SendPhoto chat_id caption image_bytes reply_markup \<Rightarrow> Inr (Some 99)
      | _ \<Rightarrow> Inr None)"


section \<open>The metrics source (\<^verbatim>\<open>fetch_metrics\<close>)\<close>

text \<open>
  \<^verbatim>\<open>text.splitlines()\<close> (the line breaks below code point 256, a \<^verbatim>\<open>\r\n\<close> pair counting once)
  and \<^verbatim>\<open>line.split(None, 1)\<close>: the first word and the rest after the white space that follows
  it, one element when there is no rest, none when the line is blank.
\<close>

definition py_is_linebreak :: "char \<Rightarrow> bool" where
  "py_is_linebreak c =
     (c \<in> set [CHR 0x0A, CHR 0x0B, CHR 0x0C, CHR 0x0D, CHR 0x1C, CHR 0x1D, CHR 0x1E, CHR 0x85])"

fun py_splitlines :: "string \<Rightarrow> string list" where
  "py_splitlines [] = []"
| "py_splitlines [c] = (if py_is_linebreak c then [[]] else [[c]])"
| "py_splitlines (c # d # cs) =
     (if c = CR \<and> d = LF then [] # py_splitlines cs
      else if py_is_linebreak c then [] # py_splitlines (d # cs)
      else (case py_splitlines (d # cs) of [] \<Rightarrow> [[c]] | l # ls \<Rightarrow> (c # l) # ls))"

definition py_split_none_1 :: "string \<Rightarrow> string list" where
  "py_split_none_1 s =
     (let s1 = dropWhile py_isspace s
      in if s1 = [] then []
         else (let word = takeWhile (\<lambda>c. \<not> py_isspace c) s1;
                   rest = dropWhile py_isspace (dropWhile (\<lambda>c. \<not> py_isspace c) s1)
               in if rest = [] then [word] else [word, rest]))"

definition wanted :: "string list" where
  "wanted =
     [''conduit_connected_clients'', ''conduit_connecting_clients'', ''conduit_bytes_uploaded'',
      ''conduit_bytes_downloaded'', ''conduit_uptime_seconds'', ''conduit_is_live'',
      ''conduit_max_clients'', ''conduit_bandwidth_limit_bytes_per_second'']"

text \<open>
  One round of the loop over the lines. The unpacking \<^verbatim>\<open>name, val = line.split(None, 1)\<close>
  raises \<^verbatim>\<open>ValueError\<close> unless the split has two parts, outside any \<^verbatim>\<open>try\<close>.
\<close>

definition fetch_metrics_line ::
  "(string \<Rightarrow> py_float option) \<Rightarrow> metrics \<Rightarrow> string \<Rightarrow> py_exception + metrics" where
  "fetch_metrics_line py_float values line =
     (if prefix ''#'' line \<or> CHR '' '' \<notin> set line then Inr values
      else (case py_split_none_1 line of
              [name, val] \<Rightarrow>
                (if name \<in> set wanted
                 then (case py_float (py_strip val) of
                         Some x \<Rightarrow> Inr (AList.update name x values)
                       | None \<Rightarrow> Inr values)
                 else Inr values)
            | _ \<Rightarrow> Inl ValueError))"

fun fetch_metrics_lines ::
  "(string \<Rightarrow> py_float option) \<Rightarrow> metrics \<Rightarrow> string list \<Rightarrow> py_exception + metrics" where
  "fetch_metrics_lines py_float values [] = Inr values"
| "fetch_metrics_lines py_float values (line # rest) =
     (case fetch_metrics_line py_float values line of
        Inl e \<Rightarrow> Inl e
      | Inr values' \<Rightarrow> fetch_metrics_lines py_float values' rest)"

text \<open>
  The second argument is what the HTTP request gives: \<open>None\<close> when \<^verbatim>\<open>urlopen\<close> or the read
  raises (the source then returns the empty dictionary), else the decoded body.
\<close>

definition fetch_metrics ::
  "(string \<Rightarrow> py_float option) \<Rightarrow> string option \<Rightarrow> py_exception + metrics" where
  "fetch_metrics py_float http =
     (case http of
        None \<Rightarrow> Inr []
      | Some text \<Rightarrow> fetch_metrics_lines py_float [] (py_splitlines text))"

section \<open>The main loop\<close>

text \<open>
  What one iteration of the loop reads from outside, as a record: the network, the metrics
  endpoint, the status of the service, the clock, and the functions the model takes as given.
  \<^verbatim>\<open>build_dashboard_caption\<close> and \<^verbatim>\<open>render_dashboard_image\<close> format floats and draw; the model takes
  their results as total functions of their arguments (the loop is modelled for a caption and
  an image that are produced).
\<close>

record world =
  telegram_api :: telegram
  metrics_body :: "string option"
  conduit_service_status :: string
  utc_date :: string
  now :: real
  int_builtin :: "string \<Rightarrow> int option"
  float_builtin :: "string \<Rightarrow> py_float option"
  build_dashboard_caption ::
    "metrics \<Rightarrow> int \<Rightarrow> py_float \<Rightarrow> py_float \<Rightarrow> py_float \<Rightarrow> real \<Rightarrow> string"
  render_dashboard_image ::
    "metrics \<Rightarrow> int \<Rightarrow> py_float \<Rightarrow> string \<Rightarrow> py_float \<Rightarrow> py_float \<Rightarrow> sample list \<Rightarrow> sample list \<Rightarrow>
     real \<Rightarrow> string"

text \<open>
  What the loop does to the outside, in order: API calls, the service commands, the update
  script and \<^verbatim>\<open>save_state\<close>.
\<close>

datatype effect =
    Api call
  | SystemRestartConduit
  | SystemStopConduit
  | SystemReboot
  | RunUpdateScript
  | SaveState

text \<open>
  The variables of \<^verbatim>\<open>_main_loop\<close> and the two files it writes: \<open>bot\<close> is the dictionary
  \<^verbatim>\<open>state\<close>, \<open>state_file\<close> the document as last written by \<^verbatim>\<open>save_state\<close>. The loop is modelled
  with a file at \<^verbatim>\<open>CONDUIT_ENV_PATH\<close> that is absent or can be read and written:
  \<open>conduit_env_file\<close> is \<open>None\<close> or its content.
\<close>

record loop_state =
  bot :: bot_state
  offset :: "int option"
  last_dashboard_ts :: real
  conduit_env_file :: "string option"
  state_file :: "bot_state option"
  effects :: "effect list"

datatype event =
    ButtonPress string int string
  | TextMessage int string
  | NoEvent

text \<open>
  An update, typed: its id and what it carries. A button press has the callback query id, the
  chat id and \<^verbatim>\<open>data\<close>; a message has the chat id and its text.
\<close>

record tg_update =
  update_id :: "int option"
  event :: event

definition emit :: "effect list \<Rightarrow> loop_state \<Rightarrow> loop_state" where
  "emit es l = l\<lparr>effects := effects l @ es\<rparr>"

definition answer_callback_query :: "string \<Rightarrow> string \<Rightarrow> loop_state \<Rightarrow> loop_state" where
  "answer_callback_query cq_id text l = emit [Api (AnswerCallbackQuery cq_id text)] l"

definition save_state :: "loop_state \<Rightarrow> loop_state" where
  "save_state l = l\<lparr>state_file := Some (bot l), effects := effects l @ [SaveState]\<rparr>"

text \<open>\<^verbatim>\<open>edit_command_desk(api, state, chat_id, text, keyboard)\<close> on the loop's state.\<close>

definition desk :: "world \<Rightarrow> int \<Rightarrow> string \<Rightarrow> keyboard \<Rightarrow> loop_state \<Rightarrow> loop_state" where
  "desk w chat_id text keyboard l =
     (let (state, calls) = edit_command_desk (telegram_api w) (bot l) chat_id text keyboard
      in l\<lparr>bot := state, effects := effects l @ map Api calls\<rparr>)"

definition build_status_message ::
  "(metrics \<Rightarrow> int \<Rightarrow> py_float \<Rightarrow> py_float \<Rightarrow> py_float \<Rightarrow> real \<Rightarrow> string) \<Rightarrow> metrics option \<Rightarrow> int \<Rightarrow>
   py_float \<Rightarrow> string \<Rightarrow> metrics option \<Rightarrow> py_float \<Rightarrow> py_float \<Rightarrow> real \<Rightarrow> string" where
  "build_status_message caption_of metrics max_clients bandwidth_mbps conduit_svc_status
     last_good_metrics_arg lifetime_bytes_up lifetime_bytes_down client_sec =
     (let conduit_svc_hint =
            (if conduit_svc_status = ''inactive'' then ''inactive (stopped)''
             else if conduit_svc_status = ''failed'' then ''failed (check logs)''
             else conduit_svc_status);
          (caption, conduit_line) =
            (case metrics of
               Some m \<Rightarrow>
                 (caption_of m max_clients bandwidth_mbps lifetime_bytes_up lifetime_bytes_down
                    client_sec,
                  if fge (metrics_get m ''conduit_is_live'' (Fin 0)) (Fin (1 / 2))
                  then ''LIVE'' else ''STOPPED'')
             | None \<Rightarrow>
                 (caption_of (get_or last_good_metrics_arg []) max_clients bandwidth_mbps
                    lifetime_bytes_up lifetime_bytes_down client_sec,
                  ''unreachable (service may be down)''))
      in py_join [LF]
           [caption, [], ''Real-time:'',
            ''  Conduit: '' @ conduit_line @ ''  '' @ [CHR 0xC2, CHR 0xB7] @
              ''  Conduit service: '' @ conduit_svc_hint,
            ''  Server (bot): running''])"

text \<open>
  The block that the periodic refresh, \<^verbatim>\<open>stop_conduit_confirm\<close> and \<^verbatim>\<open>/start\<close> share word for
  word (lines 1246 to 1263): the status text and the image, from the state and the sample.
\<close>

text \<open>
  \<^verbatim>\<open>load_conduit_env(conduit_env_path)\<close> in the loop. With a file that is absent or read to its
  end the function returns, so the last case is not reached.
\<close>

definition conduit_limits :: "world \<Rightarrow> loop_state \<Rightarrow> int \<times> py_float" where
  "conduit_limits w l =
     (case load_conduit_env (int_builtin w) (float_builtin w)
             (case conduit_env_file l of None \<Rightarrow> NoFile | Some content \<Rightarrow> FileText content) of
        Inr limits \<Rightarrow> limits
      | Inl e \<Rightarrow> (50, Fin 10))"

definition build_views ::
  "world \<Rightarrow> bot_state \<Rightarrow> metrics option \<Rightarrow> int \<Rightarrow> py_float \<Rightarrow> string \<times> string" where
  "build_views w state metrics max_clients bandwidth =
     (let conduit_svc = conduit_service_status w;
          last_good = last_good_metrics state;
          status_text =
            build_status_message (build_dashboard_caption w) metrics max_clients bandwidth
              conduit_svc last_good (lifetime_up state) (lifetime_down state)
              (get_or (client_seconds_today state) 0);
          img_metrics = (case metrics of Some m \<Rightarrow> m | None \<Rightarrow> get_or last_good []);
          img_bytes =
            render_dashboard_image w img_metrics max_clients bandwidth conduit_svc
              (lifetime_up state) (lifetime_down state)
              (get_or (traffic_history state) []) (get_or (lifetime_history state) [])
              (get_or (client_seconds_today state) 0)
      in (status_text, img_bytes))"

text \<open>
  The body of \<^verbatim>\<open>if metrics:\<close>, the same in the three places. When \<^verbatim>\<open>int(...)\<close> raises (the client
  count is an infinity or NaN) the enclosing \<^verbatim>\<open>except Exception\<close> catches it: the three updates
  made before stay and the daily counter is not touched.
\<close>

definition ingest_metrics :: "world \<Rightarrow> bot_state \<Rightarrow> metrics \<Rightarrow> bot_state" where
  "ingest_metrics w state metrics =
     (let state1 = update_lifetime_traffic state metrics;
          state2 = append_lifetime_history state1;
          state3 = append_metrics_history state2 metrics
      in case py_trunc (metrics_get metrics ''conduit_connected_clients'' (Fin 0)) of
           None \<Rightarrow> state3
         | Some n_connected \<Rightarrow> update_client_seconds_today (utc_date w) state3 n_connected 30)"

text \<open>
  The periodic refresh (lines 1232 to 1270). When \<^verbatim>\<open>fetch_metrics\<close> raises, \<^verbatim>\<open>metrics\<close> keeps
  its \<^verbatim>\<open>None\<close> and the cache is not written.
\<close>

definition periodic_refresh :: "world \<Rightarrow> int \<Rightarrow> loop_state \<Rightarrow> loop_state" where
  "periodic_refresh w owner_chat_id l =
     (let (max_clients, bandwidth) =
            conduit_limits w l;
          (state1, metrics) =
            (case fetch_metrics (float_builtin w) (metrics_body w) of
               Inl e \<Rightarrow> (bot l, None)
             | Inr m \<Rightarrow>
                 (let s = (bot l)\<lparr>last_good_metrics := Some m\<rparr>
                  in (if m \<noteq> [] then ingest_metrics w s m else s, Some m)));
          (status_text, img_bytes) = build_views w state1 metrics max_clients bandwidth;
          (state2, calls) =
            update_dashboard_for_chat (telegram_api w) state1 owner_chat_id status_text img_bytes
      in l\<lparr>bot := state2, state_file := Some state2,
            effects := effects l @ map Api calls @ [SaveState],
            last_dashboard_ts := now w\<rparr>)"

definition periodic_step :: "world \<Rightarrow> int \<Rightarrow> loop_state \<Rightarrow> loop_state" where
  "periodic_step w owner_chat_id l =
     (if now w - last_dashboard_ts l \<ge> 30 then periodic_refresh w owner_chat_id l else l)"

text \<open>
  The chain of \<^verbatim>\<open>if data == ...\<close> for a button pressed by the owner (lines 1296 to 1500). The
  result is the loop's state and the exception that left the chain, if one did.
  In \<^verbatim>\<open>reboot_cancel\<close> the name \<^verbatim>\<open>cmd_desk_main_text\<close> is not defined: evaluating the arguments of
  \<^verbatim>\<open>edit_command_desk\<close> raises \<^verbatim>\<open>NameError\<close> before the call.
\<close>

definition handle_button ::
  "world \<Rightarrow> int \<Rightarrow> tg_update \<Rightarrow> string \<Rightarrow> int \<Rightarrow> string \<Rightarrow> loop_state \<Rightarrow>
   loop_state \<times> py_exception option" where
  "handle_button w owner_chat_id upd cq_id chat_id data l =
     (if data = ''cmd_status'' then
        (let t = get_or (map_of (last_status_press (bot l)) chat_id) 0
         in if now w - t < 10 then (answer_callback_query cq_id ACK_WAIT l, None)
            else (answer_callback_query cq_id ACK_REFRESHING
                    (l\<lparr>bot := (bot l)\<lparr>last_status_press :=
                                  AList.update chat_id (now w) (last_status_press (bot l))\<rparr>,
                       last_dashboard_ts := 0\<rparr>), None))
      else if data = ''cmd_configs'' then
        (answer_callback_query cq_id [] (desk w chat_id CONFIGS_TEXT build_configs_keyboard l), None)
      else if data = ''cmd_limits'' then
        (answer_callback_query cq_id [] (desk w chat_id LIMITS_TEXT build_limits_keyboard l), None)
      else if data = ''cmd_bandwidth'' then
        (answer_callback_query cq_id []
           (desk w chat_id BANDWIDTH_TEXT build_bandwidth_keyboard l), None)
      else if data = ''back_main'' then
        (answer_callback_query cq_id [] (desk w chat_id CMD_DESK_MAIN_TEXT build_main_keyboard l),
         None)
      else if data = ''back_configs'' then
        (answer_callback_query cq_id [] (desk w chat_id CONFIGS_TEXT build_configs_keyboard l), None)
      else if prefix ''set_clients_'' data \<and> chat_id = owner_chat_id then
        (case py_index (py_split (CHR ''_'') 2 data) 2 of
           None \<Rightarrow> (l, Some IndexError)
         | Some arg \<Rightarrow>
             (case int_builtin w arg of
                None \<Rightarrow> (answer_callback_query cq_id ACK_INVALID l, None)
              | Some mc \<Rightarrow>
                  if mc \<in> set [50, 75, 100, 125, 150, 200, 250, 300] then
                    (answer_callback_query cq_id
                       (''Max clients set to '' @ py_str mc @ ''. Conduit restarting.'')
                       (emit [SystemRestartConduit]
                          (l\<lparr>conduit_env_file :=
                               Some (set_conduit_param (conduit_env_file l) ''MAX_CLIENTS''
                                       (py_str mc))\<rparr>)), None)
                  else (answer_callback_query cq_id ACK_PRESET l, None)))
      else if prefix ''set_bw_'' data \<and> chat_id = owner_chat_id then
        (case py_index (py_split (CHR ''_'') 2 data) 2 of
           None \<Rightarrow> (l, Some IndexError)
         | Some arg \<Rightarrow>
             (case int_builtin w arg of
                None \<Rightarrow> (answer_callback_query cq_id ACK_INVALID l, None)
              | Some bw_val \<Rightarrow>
                  if bw_val \<in> set [5, 10, 15, 20, 25, 30] then
                    (answer_callback_query cq_id
                       (''Bandwidth set to '' @ py_str bw_val @ '' Mbps. Conduit restarting.'')
                       (emit [SystemRestartConduit]
                          (l\<lparr>conduit_env_file :=
                               Some (set_conduit_param (conduit_env_file l) ''BANDWIDTH''
                                       (py_str bw_val))\<rparr>)), None)
                  else (answer_callback_query cq_id ACK_PRESET l, None)))
      else if data = ''cmd_restart_conduit'' then
        (answer_callback_query cq_id []
           (desk w chat_id RESTART_CONFIRM_TEXT build_restart_conduit_confirm_keyboard l), None)
      else if data = ''restart_conduit_confirm'' then
        (answer_callback_query cq_id ACK_RESTARTED
           (desk w chat_id CMD_DESK_MAIN_TEXT build_main_keyboard (emit [SystemRestartConduit] l)),
         None)
      else if data = ''restart_conduit_cancel'' then
        (answer_callback_query cq_id ACK_CANCELLED
           (desk w chat_id CMD_DESK_MAIN_TEXT build_main_keyboard l), None)
      else if data = ''cmd_stop_conduit'' then
        (answer_callback_query cq_id []
           (desk w chat_id STOP_CONFIRM_TEXT build_stop_conduit_confirm_keyboard l), None)
      else if data = ''stop_conduit_confirm'' then
        (let l1 = emit [SystemStopConduit] l;
             (max_clients, bandwidth) =
               conduit_limits w l1;
             (state1, metrics) =
               (case fetch_metrics (float_builtin w) (metrics_body w) of
                  Inl e \<Rightarrow> (bot l1, None)
                | Inr m \<Rightarrow> (if m \<noteq> [] then ingest_metrics w (bot l1) m else bot l1, Some m));
             (status_text, img_bytes) = build_views w state1 metrics max_clients bandwidth;
             (state2, calls) =
               update_dashboard_for_chat (telegram_api w) state1 chat_id status_text img_bytes;
             state3 = (case metrics of
                         Some m \<Rightarrow> state2\<lparr>last_good_metrics := Some m\<rparr>
                       | None \<Rightarrow> state2);
             l2 = l1\<lparr>bot := state3, effects := effects l1 @ map Api calls\<rparr>
         in (answer_callback_query cq_id ACK_STOPPED
               (desk w chat_id CMD_DESK_MAIN_TEXT build_main_keyboard l2), None))
      else if data = ''stop_conduit_cancel'' then
        (answer_callback_query cq_id ACK_CANCELLED
           (desk w chat_id CMD_DESK_MAIN_TEXT build_main_keyboard l), None)
      else if data = ''cmd_update'' then
        (answer_callback_query cq_id []
           (desk w chat_id UPDATE_TEXT (build_update_confirm_keyboard UPDATE_LABEL_YES) l), None)
      else if data = ''update_confirm'' then
        (let l1 = desk w chat_id CMD_DESK_MAIN_TEXT build_main_keyboard
                    (answer_callback_query cq_id ACK_UPDATING l);
             l2 = save_state (l1\<lparr>bot := (bot l1)\<lparr>last_update_id := update_id upd\<rparr>\<rparr>)
         in (emit [RunUpdateScript] l2, None))
      else if data = ''update_cancel'' then
        (answer_callback_query cq_id ACK_CANCELLED
           (desk w chat_id CONFIGS_TEXT build_configs_keyboard l), None)
      else if data = ''cmd_reboot'' then
        (answer_callback_query cq_id []
           (desk w chat_id REBOOT_CONFIRM_TEXT build_reboot_confirm_keyboard l), None)
      else if data = ''reboot_confirm'' then
        (emit [SystemReboot] (answer_callback_query cq_id ACK_REBOOTING l), None)
      else if data = ''reboot_cancel'' then
        (l, Some (NameError ''cmd_desk_main_text''))
      else if data = ''cmd_info'' then
        (answer_callback_query cq_id [] (desk w chat_id INFO_TEXT build_main_keyboard l), None)
      else (answer_callback_query cq_id [] l, None))"

text \<open>
  \<^verbatim>\<open>/start\<close> from the owner (lines 1525 to 1582). In the model nothing in the first \<^verbatim>\<open>try\<close> can
  raise, so its \<^verbatim>\<open>except\<close> branch (the views built from defaults) is not reached.
\<close>

definition handle_start :: "world \<Rightarrow> int \<Rightarrow> loop_state \<Rightarrow> loop_state" where
  "handle_start w chat_id l =
     (let (state0, deletions) = delete_chat_ui_messages (bot l) chat_id;
          (max_clients, bandwidth) =
            conduit_limits w l;
          (state1, metrics) =
            (case fetch_metrics (float_builtin w) (metrics_body w) of
               Inl e \<Rightarrow> (state0, None)
             | Inr m \<Rightarrow> (if m \<noteq> [] then ingest_metrics w state0 m else state0, Some m));
          (status_text, img_bytes) = build_views w state1 metrics max_clients bandwidth;
          (state2, ids, calls) =
            ensure_chat_messages (telegram_api w) state1 chat_id status_text img_bytes
      in l\<lparr>bot := state2, state_file := Some state2,
            effects := effects l @ map Api deletions @ map Api calls @ [SaveState]\<rparr>)"

text \<open>
  The body of \<^verbatim>\<open>for upd in updates\<close> (lines 1279 to 1584): the offset and \<^verbatim>\<open>last_update_id\<close>
  first, then the button press or the message. An exception leaves the loop over the updates.
\<close>

definition handle_update ::
  "world \<Rightarrow> int \<Rightarrow> tg_update \<Rightarrow> loop_state \<Rightarrow> loop_state \<times> py_exception option" where
  "handle_update w owner_chat_id upd l =
     (let l1 = l\<lparr>offset := Some (max (get_or (offset l) 0) (get_or (update_id upd) 0 + 1)),
                 bot := (bot l)\<lparr>last_update_id := update_id upd\<rparr>\<rparr>
      in case event upd of
           ButtonPress cq_id chat_id data \<Rightarrow>
             if chat_id \<noteq> owner_chat_id
             then (answer_callback_query cq_id NOT_AUTHORIZED_TEXT l1, None)
             else (case handle_button w owner_chat_id upd cq_id chat_id data l1 of
                     (l2, None) \<Rightarrow> (save_state l2, None)
                   | (l2, Some e) \<Rightarrow> (l2, Some e))
         | TextMessage chat_id text \<Rightarrow>
             if prefix ''/start'' text then
               (if chat_id \<noteq> owner_chat_id
                then (emit [Api (SendMessage chat_id NOT_AUTHORIZED_TEXT None)] l1, None)
                else (handle_start w chat_id l1, None))
             else (l1, None)
         | NoEvent \<Rightarrow> (l1, None))"

subsection \<open>Notions used to state and check the loop's properties\<close>

text \<open>
  The effects that act on the service or the machine. \<open>seen\<close> is the head of the loop body: the
  offset and \<^verbatim>\<open>last_update_id\<close> advanced past the update. \<open>press\<close> and \<open>message\<close> build the two
  kinds of update.
\<close>

definition service_control :: "effect \<Rightarrow> bool" where
  "service_control e =
     (e = SystemRestartConduit \<or> e = SystemStopConduit \<or> e = SystemReboot \<or> e = RunUpdateScript)"

definition seen :: "int option \<Rightarrow> loop_state \<Rightarrow> loop_state" where
  "seen uid l =
     l\<lparr>offset := Some (max (get_or (offset l) 0) (get_or uid 0 + 1)),
       bot := (bot l)\<lparr>last_update_id := uid\<rparr>\<rparr>"

definition press :: "int option \<Rightarrow> string \<Rightarrow> int \<Rightarrow> string \<Rightarrow> tg_update" where
  "press uid cq_id chat_id data = \<lparr>update_id = uid, event = ButtonPress cq_id chat_id data\<rparr>"

definition message :: "int option \<Rightarrow> int \<Rightarrow> string \<Rightarrow> tg_update" where
  "message uid chat_id text = \<lparr>update_id = uid, event = TextMessage chat_id text\<rparr>"

text \<open>
  Concrete inputs: a world in which the metrics endpoint is down and every API call succeeds,
  with a caption that shows the client count; a loop whose chat 7 has its triad and whose cache
  holds a sample with 5 clients.
\<close>

definition quiet_world :: world where
  "quiet_world =
     \<lparr>telegram_api = (\<lambda>c. Inr None),
      metrics_body = None,
      conduit_service_status = ''active'',
      utc_date = ''2024-05-01'',
      now = 100,
      int_builtin = int_of_decimal,
      float_builtin = float_of_decimal,
      build_dashboard_caption =
        (\<lambda>m max_clients bandwidth up down client_sec.
           ''clients '' @
           py_str (get_or (py_trunc (metrics_get m ''conduit_connected_clients'' (Fin 0))) 0)),
      render_dashboard_image =
        (\<lambda>m max_clients bandwidth svc up down traffic lifetime client_sec. ''png'')\<rparr>"

definition cached_loop :: loop_state where
  "cached_loop =
     \<lparr>bot = empty_state\<lparr>dashboard_message_ids := [(7, 11)], status_message_ids := [(7, 12)],
              command_message_ids := [(7, 13)],
              last_good_metrics :=
                Some [(''conduit_connected_clients'', Fin 5), (''conduit_is_live'', Fin 1)]\<rparr>,
      offset = None, last_dashboard_ts = 0, conduit_env_file = None, state_file = None,
      effects = []\<rparr>"

section \<open>Verified properties\<close>

lemma get_or_simps [simp]: "get_or None d = d" "get_or (Some x) d = x"
  by (simp_all add: get_or_def)

subsection \<open>Floats\<close>

lemma round_half_even_int [simp]: "round_half_even (of_int k) = k"
  by (simp add: round_half_even_def)

lemma floor_log2_bounds:
  fixes x :: real
  assumes "0 < x"
  shows "2 powr of_int \<lfloor>log 2 x\<rfloor> \<le> x" "x < 2 powr of_int (\<lfloor>log 2 x\<rfloor> + 1)"
  using floor_log_eq_powr_iff [of x 2 "\<lfloor>log 2 x\<rfloor>"] assms by simp_all

lemma floor_log2_range:
  fixes x :: real
  assumes "1 \<le> x" "x \<le> 2 ^ 53"
  shows "0 \<le> \<lfloor>log 2 x\<rfloor>" "\<lfloor>log 2 x\<rfloor> \<le> 53"
proof -
  from assms have pos: "0 < x" by simp
  have "0 \<le> log 2 x" using assms by simp
  then show "0 \<le> \<lfloor>log 2 x\<rfloor>" by simp
  have "log 2 x \<le> 53" using assms pos by (simp add: log_le_iff)
  then show "\<lfloor>log 2 x\<rfloor> \<le> 53" by (simp add: floor_le_iff)
qed

text \<open>Every whole number up to \<open>2 ^ 53\<close> in magnitude is a float.\<close>

lemma round64_int:
  assumes "\<bar>k\<bar> \<le> 2 ^ 53"
  shows "round64 (of_int k) = Fin (of_int k)"
proof (cases "k = 0")
  case True
  then show ?thesis by (simp add: round64_def)
next
  case False
  define x :: real where "x = \<bar>of_int k\<bar>"
  define n where "n = \<lfloor>log 2 x\<rfloor>"
  have x1: "1 \<le> x" using False by (simp add: x_def)
  have xk: "x = of_int \<bar>k\<bar>" by (simp add: x_def)
  have x53: "x \<le> 2 ^ 53" using assms unfolding xk
    by (metis of_int_le_iff of_int_numeral of_int_power)
  have n0: "0 \<le> n" and n53: "n \<le> 53"
    using floor_log2_range [OF x1 x53] by (simp_all add: n_def)
  have e: "max (n - 52) (- 1074) = n - 52" using n0 by simp
  have "\<exists>j. real_of_int k / 2 powi (n - 52) = of_int j"
  proof (cases "n \<le> 52")
    case True
    then have "(2::real) powi (n - 52) = 1 / 2 ^ nat (52 - n)"
      by (simp add: power_int_def field_simps)
    then have "real_of_int k / 2 powi (n - 52) = of_int (k * 2 ^ nat (52 - n))"
      by simp
    then show ?thesis by blast
  next
    case False
    with n53 have n: "n = 53" by simp
    have "2 powr of_int n \<le> x" using floor_log2_bounds(1) [of x] x1 by (simp add: n_def)
    then have "2 ^ 53 \<le> x" by (simp add: n)
    with x53 have "x = 2 ^ 53" by simp
    then have "\<bar>k\<bar> = 2 ^ 53" unfolding xk
      by (metis of_int_eq_iff of_int_numeral of_int_power)
    then have "k = 2 ^ 53 \<or> k = - (2 ^ 53)" by linarith
    then have "real_of_int k / 2 powi (n - 52) = of_int (k div 2)"
      by (auto simp: n)
    then show ?thesis by blast
  qed
  then obtain j where j: "real_of_int k / 2 powi (n - 52) = of_int j" by blast
  have nz: "(2::real) powi (n - 52) \<noteq> 0" by simp
  from j nz have y: "of_int j * 2 powi (n - 52) = real_of_int k"
    by (metis nonzero_divide_eq_eq)
  have small: "\<not> (2 ^ 1024 \<le> \<bar>real_of_int k\<bar>)"
  proof -
    have "\<bar>real_of_int k\<bar> \<le> 2 ^ 53" using x53 by (simp add: x_def)
    also have "\<dots> < (2::real) ^ 1024" by simp
    finally show ?thesis by simp
  qed
  show ?thesis
    using False small
    by (simp add: round64_def Let_def x_def [symmetric] n_def [symmetric] e j y)
qed


lemma round64_0 [simp]: "round64 0 = Fin 0"
  by (simp add: round64_def)

lemma round64_1 [simp]: "round64 1 = Fin 1"
  using round64_int [of 1] by simp

lemma round64_numeral [simp]:
  "(numeral k :: int) \<le> 2 ^ 53 \<Longrightarrow> round64 (numeral k) = Fin (numeral k)"
  using round64_int [of "numeral k"] by simp




lemma fin_value_Fin [simp]: "fin_value (Fin x) = x"
  by (simp add: fin_value_def)

subsection \<open>Lifetime traffic\<close>















subsection \<open>History buffers and daily usage\<close>

lemma py_last_n_short: "length xs \<le> n \<Longrightarrow> py_last_n n xs = xs"
  by (simp add: py_last_n_def)

lemma length_py_last_n: "length (py_last_n n xs) = min n (length xs)"
  by (simp add: py_last_n_def)

lemma py_last_n_absorb: "py_last_n n (py_last_n n xs @ ys) = py_last_n n (xs @ ys)"
proof (cases "n \<le> length xs")
  case True
  then have "length xs + length ys - (length xs - n + n) + (length xs - n) = length xs + length ys - n"
    by arith
  with True show ?thesis by (simp add: py_last_n_def)
next
  case False
  then show ?thesis by (simp add: py_last_n_def)
qed

lemma empty_state_histories [simp]:
  "traffic_history empty_state = None" "lifetime_history empty_state = None"
  by (simp_all add: empty_state_def)

lemma metrics_get_traffic_sample [simp]:
  "metrics_get (traffic_sample p) ''conduit_bytes_uploaded'' (Fin 0) = fst p"
  "metrics_get (traffic_sample p) ''conduit_bytes_downloaded'' (Fin 0) = snd p"
  by (simp_all add: metrics_get_def traffic_sample_def)

lemma append_metrics_history_eq:
  "traffic_history (append_metrics_history s m) =
     Some (py_last_n 40 (get_or (traffic_history s) [] @
       [(metrics_get m ''conduit_bytes_uploaded'' (Fin 0), metrics_get m ''conduit_bytes_downloaded'' (Fin 0))]))"
  by (simp add: append_metrics_history_def Let_def HISTORY_MAX_def py_last_n_short)

lemma append_lifetime_history_eq:
  "lifetime_history (append_lifetime_history s) =
     Some (py_last_n 40 (get_or (lifetime_history s) [] @ [(lifetime_up s, lifetime_down s)]))"
  by (simp add: append_lifetime_history_def Let_def HISTORY_MAX_def py_last_n_short
      lifetime_up_def lifetime_down_def)

lemma append_all_metrics_snoc:
  "append_all_metrics s (ps @ [p]) = append_metrics_history (append_all_metrics s ps) (traffic_sample p)"
  by (simp add: append_all_metrics_def)

lemma append_all_lifetime_snoc:
  "append_all_lifetime s (ps @ [p]) =
     append_lifetime_history
       ((append_all_lifetime s ps)\<lparr>lifetime_bytes_uploaded := Some (fst p),
                                    lifetime_bytes_downloaded := Some (snd p)\<rparr>)"
  by (simp add: append_all_lifetime_def)

lemma append_all_metrics_eq:
  "ps \<noteq> [] \<Longrightarrow>
   traffic_history (append_all_metrics s ps) = Some (py_last_n 40 (get_or (traffic_history s) [] @ ps))"
proof (induction ps rule: rev_induct)
  case Nil
  then show ?case by simp
next
  case (snoc p ps)
  show ?case
  proof (cases "ps = []")
    case True
    then show ?thesis
      by (simp add: append_all_metrics_def append_metrics_history_eq)
  next
    case False
    with snoc.IH have "traffic_history (append_all_metrics s ps) =
        Some (py_last_n 40 (get_or (traffic_history s) [] @ ps))" by simp
    then show ?thesis
      by (simp add: append_all_metrics_snoc append_metrics_history_eq py_last_n_absorb)
  qed
qed

lemma append_all_lifetime_eq:
  "ps \<noteq> [] \<Longrightarrow>
   lifetime_history (append_all_lifetime s ps) = Some (py_last_n 40 (get_or (lifetime_history s) [] @ ps))"
proof (induction ps rule: rev_induct)
  case Nil
  then show ?case by simp
next
  case (snoc p ps)
  show ?case
  proof (cases "ps = []")
    case True
    then show ?thesis
      by (simp add: append_all_lifetime_def append_lifetime_history_eq lifetime_up_def lifetime_down_def)
  next
    case False
    with snoc.IH have "lifetime_history (append_all_lifetime s ps) =
        Some (py_last_n 40 (get_or (lifetime_history s) [] @ ps))" by simp
    then show ?thesis
      by (simp add: append_all_lifetime_snoc append_lifetime_history_eq py_last_n_absorb
          lifetime_up_def lifetime_down_def)
  qed
qed

text \<open>
  Claim C6. Both append functions push the sample to the back; a buffer that would exceed 40
  entries keeps its last 40. Appending a non-empty sequence of samples to any buffer leaves the
  most recent (at most 40) entries in order, and 45 samples appended to the empty document leave
  exactly samples 6 to 45.
\<close>

theorem history_append_bounded:
  "(length (get_or (traffic_history s) []) < 40 \<longrightarrow>
      traffic_history (append_metrics_history s (traffic_sample p)) =
        Some (get_or (traffic_history s) [] @ [p]))
   \<and> (40 \<le> length (get_or (traffic_history s) []) \<longrightarrow>
      traffic_history (append_metrics_history s (traffic_sample p)) =
        Some (drop (length (get_or (traffic_history s) []) + 1 - 40) (get_or (traffic_history s) [] @ [p]))
      \<and> length (get_or (traffic_history (append_metrics_history s (traffic_sample p))) []) = 40)
   \<and> (length (get_or (lifetime_history s) []) < 40 \<longrightarrow>
      lifetime_history (append_lifetime_history s) =
        Some (get_or (lifetime_history s) [] @ [(lifetime_up s, lifetime_down s)]))
   \<and> (40 \<le> length (get_or (lifetime_history s) []) \<longrightarrow>
      lifetime_history (append_lifetime_history s) =
        Some (drop (length (get_or (lifetime_history s) []) + 1 - 40)
                (get_or (lifetime_history s) [] @ [(lifetime_up s, lifetime_down s)]))
      \<and> length (get_or (lifetime_history (append_lifetime_history s)) []) = 40)
   \<and> (ps \<noteq> [] \<longrightarrow>
      traffic_history (append_all_metrics s ps) =
        Some (drop (length (get_or (traffic_history s) [] @ ps) - 40) (get_or (traffic_history s) [] @ ps))
      \<and> lifetime_history (append_all_lifetime s ps) =
        Some (drop (length (get_or (lifetime_history s) [] @ ps) - 40) (get_or (lifetime_history s) [] @ ps))
      \<and> length (get_or (traffic_history (append_all_metrics s ps)) []) \<le> 40
      \<and> length (get_or (lifetime_history (append_all_lifetime s ps)) []) \<le> 40)
   \<and> (length ps = 45 \<longrightarrow>
      traffic_history (append_all_metrics empty_state ps) = Some (drop 5 ps)
      \<and> lifetime_history (append_all_lifetime empty_state ps) = Some (drop 5 ps)
      \<and> length (drop 5 ps) = 40)"
proof -
  have one_t: "traffic_history (append_metrics_history s (traffic_sample p)) =
      Some (py_last_n 40 (get_or (traffic_history s) [] @ [p]))"
    by (simp add: append_metrics_history_eq)
  have one_l: "lifetime_history (append_lifetime_history s) =
      Some (py_last_n 40 (get_or (lifetime_history s) [] @ [(lifetime_up s, lifetime_down s)]))"
    by (rule append_lifetime_history_eq)
  have many: "ps \<noteq> [] \<Longrightarrow>
      traffic_history (append_all_metrics s ps) = Some (py_last_n 40 (get_or (traffic_history s) [] @ ps))
      \<and> lifetime_history (append_all_lifetime s ps) = Some (py_last_n 40 (get_or (lifetime_history s) [] @ ps))"
    by (simp add: append_all_metrics_eq append_all_lifetime_eq)
  have fresh: "traffic_history (append_all_metrics empty_state ps) = Some (drop 5 ps)
      \<and> lifetime_history (append_all_lifetime empty_state ps) = Some (drop 5 ps)"
    if len: "length ps = 45"
  proof -
    from len have ne: "ps \<noteq> []" by auto
    show ?thesis
      using append_all_metrics_eq [OF ne, of empty_state]
        append_all_lifetime_eq [OF ne, of empty_state] len
      by (simp add: py_last_n_def)
  qed
  show ?thesis
    using one_t one_l many fresh
    by (auto simp: py_last_n_def)
qed

text \<open>
  The theorem at concrete inputs: one sample into the empty buffer, 45 numbered samples into the
  empty buffer, and one sample into a full one.
\<close>

theorem history_append_bounded_witness:
  "traffic_history (append_metrics_history empty_state (traffic_sample (Fin 1, Fin 2))) = Some [(Fin 1, Fin 2)]
   \<and> traffic_history (append_all_metrics empty_state (map (\<lambda>i. (Fin (real i), Fin (real i))) [1..<46]))
       = Some (drop 5 (map (\<lambda>i. (Fin (real i), Fin (real i))) [1..<46]))
   \<and> lifetime_history (append_all_lifetime empty_state (map (\<lambda>i. (Fin (real i), Fin (real i))) [1..<46]))
       = Some (drop 5 (map (\<lambda>i. (Fin (real i), Fin (real i))) [1..<46]))
   \<and> length (get_or (traffic_history
        (append_metrics_history
           (empty_state\<lparr>traffic_history := Some (replicate 40 (Fin 0, Fin 0))\<rparr>) (traffic_sample (Fin 1, Fin 2)))) []) = 40"
  using history_append_bounded [of empty_state "(Fin 1, Fin 2)" "map (\<lambda>i. (Fin (real i), Fin (real i))) [1..<46]"]
    history_append_bounded [of "empty_state\<lparr>traffic_history := Some (replicate 40 (Fin 0, Fin 0))\<rparr>" "(Fin 1, Fin 2)" "[]"]
  by (simp add: empty_state_def)



subsection \<open>Reading the config store\<close>

lemma load_line_fst:
  "fst (load_conduit_env_line p_int p_float acc raw) =
     (case env_line_kv raw of
        None \<Rightarrow> fst acc
      | Some (k, v) \<Rightarrow> (if k = ''MAX_CLIENTS'' then (case p_int v of Some n \<Rightarrow> n | None \<Rightarrow> fst acc) else fst acc))"
  by (simp add: load_conduit_env_line_def split: option.splits prod.splits)

lemma load_line_snd:
  "snd (load_conduit_env_line p_int p_float acc raw) =
     (case env_line_kv raw of
        None \<Rightarrow> snd acc
      | Some (k, v) \<Rightarrow> (if k = ''BANDWIDTH'' then (case p_float v of Some x \<Rightarrow> x | None \<Rightarrow> snd acc) else snd acc))"
  by (simp add: load_conduit_env_line_def split: option.splits prod.splits)

lemma map_filter_snoc: "List.map_filter f (xs @ [x]) =
    List.map_filter f xs @ (case f x of None \<Rightarrow> [] | Some y \<Rightarrow> [y])"
  by (simp add: List.map_filter_def split: option.splits)

lemma load_fold_fst:
  "fst (foldl (load_conduit_env_line p_int p_float) acc ls) =
     (case parsed_values p_int ''MAX_CLIENTS'' (List.map_filter env_line_kv ls) of
        [] \<Rightarrow> fst acc | v # vs \<Rightarrow> last (v # vs))"
proof (induction ls rule: rev_induct)
  case Nil
  show ?case by (simp add: parsed_values_def List.map_filter_def)
next
  case (snoc l ls)
  then show ?case
    by (auto simp: load_line_fst parsed_values_def map_filter_snoc split: option.splits list.splits)
qed

lemma load_fold_snd:
  "snd (foldl (load_conduit_env_line p_int p_float) acc ls) =
     (case parsed_values p_float ''BANDWIDTH'' (List.map_filter env_line_kv ls) of
        [] \<Rightarrow> snd acc | v # vs \<Rightarrow> last (v # vs))"
proof (induction ls rule: rev_induct)
  case Nil
  show ?case by (simp add: parsed_values_def List.map_filter_def)
next
  case (snoc l ls)
  then show ?case
    by (auto simp: load_line_snd parsed_values_def map_filter_snoc split: option.splits list.splits)
qed

lemma parsed_values_empty:
  "(\<forall>v. (key, v) \<in> set es \<longrightarrow> parse v = None) \<Longrightarrow> parsed_values parse key es = []"
  by (induction es) (auto simp: parsed_values_def List.map_filter_def)

text \<open>
  Claim C10, as the code has it. \<^verbatim>\<open>load_conduit_env\<close> returns a pair when there is no file and
  when the file is read to its end; an exception of \<^verbatim>\<open>open\<close> or of the iteration over the lines
  leaves the function. Without a file the pair is (50, 10.0). With a file that is read, the first
  component is 50 when no \<^verbatim>\<open>MAX_CLIENTS\<close> entry has a value \<^verbatim>\<open>int\<close> accepts, and the second is 10.0
  when no \<^verbatim>\<open>BANDWIDTH\<close> entry has a value \<^verbatim>\<open>float\<close> accepts. Each component is the last accepted
  value of its own key, whatever the entries of the other key are, so a malformed value of one
  key leaves the other key's value in place.
\<close>

theorem load_conduit_env_defaults:
  "load_conduit_env p_int p_float NoFile = Inr (50, Fin 10)
   \<and> load_conduit_env p_int p_float (ReadError e) = Inl e
   \<and> ((\<forall>v. (''MAX_CLIENTS'', v) \<in> set (env_entries content) \<longrightarrow> p_int v = None) \<longrightarrow>
        (\<exists>b. load_conduit_env p_int p_float (FileText content) = Inr (50, b)))
   \<and> ((\<forall>v. (''BANDWIDTH'', v) \<in> set (env_entries content) \<longrightarrow> p_float v = None) \<longrightarrow>
        (\<exists>n. load_conduit_env p_int p_float (FileText content) = Inr (n, Fin 10)))
   \<and> load_conduit_env p_int p_float (FileText content) =
        Inr (case parsed_values p_int ''MAX_CLIENTS'' (env_entries content) of
               [] \<Rightarrow> 50 | v # vs \<Rightarrow> last (v # vs),
             case parsed_values p_float ''BANDWIDTH'' (env_entries content) of
               [] \<Rightarrow> Fin 10 | v # vs \<Rightarrow> last (v # vs))"
proof -
  define limits where
    "limits = foldl (load_conduit_env_line p_int p_float) (50, Fin 10) (read_lines content)"
  have f: "fst limits =
        (case parsed_values p_int ''MAX_CLIENTS'' (env_entries content) of
           [] \<Rightarrow> 50 | v # vs \<Rightarrow> last (v # vs))"
    by (simp add: limits_def load_fold_fst env_entries_def split: list.splits)
  have s: "snd limits =
        (case parsed_values p_float ''BANDWIDTH'' (env_entries content) of
           [] \<Rightarrow> Fin 10 | v # vs \<Rightarrow> last (v # vs))"
    by (simp add: limits_def load_fold_snd env_entries_def split: list.splits)
  have r: "load_conduit_env p_int p_float (FileText content) = Inr (fst limits, snd limits)"
    by (simp add: load_conduit_env_def limits_def)
  have f0: "\<exists>b. load_conduit_env p_int p_float (FileText content) = Inr (50, b)"
    if "\<forall>v. (''MAX_CLIENTS'', v) \<in> set (env_entries content) \<longrightarrow> p_int v = None"
    using parsed_values_empty [OF that] f r by simp
  have s0: "\<exists>n. load_conduit_env p_int p_float (FileText content) = Inr (n, Fin 10)"
    if "\<forall>v. (''BANDWIDTH'', v) \<in> set (env_entries content) \<longrightarrow> p_float v = None"
    using parsed_values_empty [OF that] s r by simp
  have n: "load_conduit_env p_int p_float NoFile = Inr (50, Fin 10)"
    "load_conduit_env p_int p_float (ReadError e) = Inl e"
    by (simp_all add: load_conduit_env_def)
  have full: "load_conduit_env p_int p_float (FileText content) =
        Inr (case parsed_values p_int ''MAX_CLIENTS'' (env_entries content) of
               [] \<Rightarrow> 50 | v # vs \<Rightarrow> last (v # vs),
             case parsed_values p_float ''BANDWIDTH'' (env_entries content) of
               [] \<Rightarrow> Fin 10 | v # vs \<Rightarrow> last (v # vs))"
    using r by (simp only: f s)
  from n full f0 s0 show ?thesis by blast
qed

lemmas env_eval = read_lines_def env_line_kv_def py_strip_def py_isspace_def
  py_split_first_def int_of_decimal_def float_of_decimal_def digit_value_def env_entries_def
  List.map_filter_def parsed_values_def

text \<open>
  The theorem on two files, with the decimal readers for \<^verbatim>\<open>int\<close> and \<^verbatim>\<open>float\<close>: a malformed
  \<^verbatim>\<open>MAX_CLIENTS\<close> beside a good \<^verbatim>\<open>BANDWIDTH\<close>, and the reverse.
\<close>

theorem load_conduit_env_defaults_witness:
  "load_conduit_env int_of_decimal float_of_decimal
     (FileText ''MAX_CLIENTS=abc\<newline>BANDWIDTH = 20\<newline>'') = Inr (50, Fin 20)
   \<and> load_conduit_env int_of_decimal float_of_decimal
       (FileText ''# limits\<newline>MAX_CLIENTS=75\<newline>BANDWIDTH=fast\<newline>'') = Inr (75, Fin 10)"
proof -
  have a: "env_entries ''MAX_CLIENTS=abc\<newline>BANDWIDTH = 20\<newline>'' = [(''MAX_CLIENTS'', ''abc''), (''BANDWIDTH'', ''20'')]"
    by (simp add: env_eval)
  have b: "env_entries ''# limits\<newline>MAX_CLIENTS=75\<newline>BANDWIDTH=fast\<newline>'' = [(''MAX_CLIENTS'', ''75''), (''BANDWIDTH'', ''fast'')]"
    by (simp add: env_eval)
  have pa: "int_of_decimal ''abc'' = None" "float_of_decimal ''20'' = Some (Fin 20)"
    by (simp_all add: env_eval)
  have pb: "int_of_decimal ''75'' = Some 75" "float_of_decimal ''fast'' = None"
    by (simp_all add: env_eval)
  show ?thesis
    using load_conduit_env_defaults [of int_of_decimal float_of_decimal OSError
        "''MAX_CLIENTS=abc\<newline>BANDWIDTH = 20\<newline>''"]
      load_conduit_env_defaults [of int_of_decimal float_of_decimal OSError
        "''# limits\<newline>MAX_CLIENTS=75\<newline>BANDWIDTH=fast\<newline>''"]
    by (simp add: a b pa pb parsed_values_def List.map_filter_def)
qed

text \<open>
  Claim C10 as stated does not hold for every path: a file that cannot be opened, or whose bytes
  are not UTF-8 (a single byte \<^verbatim>\<open>0xFF\<close>), makes \<^verbatim>\<open>open\<close> or the iteration raise, outside both
  \<^verbatim>\<open>except ValueError\<close> blocks, and no pair is returned.
\<close>

theorem load_conduit_env_read_error_counterexample:
  "load_conduit_env int_of_decimal float_of_decimal (ReadError UnicodeDecodeError)
     = Inl UnicodeDecodeError
   \<and> load_conduit_env int_of_decimal float_of_decimal (ReadError OSError) = Inl OSError
   \<and> (\<nexists>limits. load_conduit_env int_of_decimal float_of_decimal (ReadError UnicodeDecodeError)
         = Inr limits)"
  by (simp add: load_conduit_env_def)

subsection \<open>Writing the config store\<close>

lemma dropWhile_id_hd: "xs \<noteq> [] \<Longrightarrow> \<not> P (hd xs) \<Longrightarrow> dropWhile P xs = xs"
  by (cases xs) auto

lemma py_strip_Nil [simp]: "py_strip [] = []"
  by (simp add: py_strip_def)

lemma py_strip_fixed:
  assumes "s \<noteq> []" "\<not> py_isspace (hd s)" "\<not> py_isspace (last s)"
  shows "py_strip s = s"
proof -
  have a: "dropWhile py_isspace s = s"
    using assms by (simp add: dropWhile_id_hd)
  have "hd (rev s) = last s" using assms(1) by (simp add: hd_rev)
  then have b: "dropWhile py_isspace (rev s) = rev s"
    using assms by (simp add: dropWhile_id_hd)
  show ?thesis by (simp add: py_strip_def a b)
qed

lemma py_strip_ends:
  assumes "py_strip s \<noteq> []"
  shows "\<not> py_isspace (hd (py_strip s))" "\<not> py_isspace (last (py_strip s))"
proof -
  define t where "t = dropWhile py_isspace s"
  define u where "u = dropWhile py_isspace (rev t)"
  have m: "py_strip s = rev u" by (simp add: py_strip_def t_def u_def)
  with assms have une: "u \<noteq> []" by simp
  then have hu: "\<not> py_isspace (hd u)" unfolding u_def by (rule hd_dropWhile)
  from une have tne: "t \<noteq> []" unfolding u_def by auto
  then have ht: "\<not> py_isspace (hd t)" unfolding t_def by (rule hd_dropWhile)
  obtain pre where pre: "rev t = pre @ u"
    unfolding u_def by (metis takeWhile_dropWhile_id)
  from pre une have "last u = last (rev t)" by simp
  also have "\<dots> = hd t" using tne by (simp add: last_rev)
  finally have lu: "last u = hd t" .
  show "\<not> py_isspace (hd (py_strip s))"
    using m une lu ht by (simp add: hd_rev)
  show "\<not> py_isspace (last (py_strip s))"
    using m une hu by (simp add: last_rev)
qed

lemma py_strip_idem [simp]: "py_strip (py_strip s) = py_strip s"
proof (cases "py_strip s = []")
  case True
  then show ?thesis by simp
next
  case False
  then show ?thesis by (intro py_strip_fixed py_strip_ends)
qed




lemma isspace_LF [simp]: "py_isspace LF"
  by (simp add: py_isspace_def)

lemma not_isspace_eq [simp]: "\<not> py_isspace (CHR ''='')"
  by (simp add: py_isspace_def)



























subsection \<open>The reconciler\<close>

lemma classify_cases:
  "classify e = Unchanged \<longleftrightarrow> not_modified (py_lower e)"
  "classify e = TargetMissing \<longleftrightarrow> \<not> not_modified (py_lower e) \<and> target_missing (py_lower e)"
  "classify e = Other \<longleftrightarrow> \<not> not_modified (py_lower e) \<and> \<not> target_missing (py_lower e)"
  by (simp_all add: classify_def Let_def)

lemma py_not_Some [simp]: "py_not (Some c) \<longleftrightarrow> c = 0" "py_not None"
  by (simp_all add: py_not_def)


lemma update_dashboard_for_chat_noop:
  "py_not (map_of (dashboard_message_ids s) chat) \<or> py_not (map_of (status_message_ids s) chat) \<Longrightarrow>
   update_dashboard_for_chat api s chat msg img = (s, [])"
  by (simp add: update_dashboard_for_chat_def Let_def)






lemmas text_eval = py_lower_def py_lower_char_def not_modified_def target_missing_def



lemma ingest_metrics_ids:
  "dashboard_message_ids (ingest_metrics w s m) = dashboard_message_ids s"
  "status_message_ids (ingest_metrics w s m) = status_message_ids s"
  "command_message_ids (ingest_metrics w s m) = command_message_ids s"
  by (simp_all add: ingest_metrics_def update_lifetime_traffic_def append_lifetime_history_def
      append_metrics_history_def update_client_seconds_today_def Let_def split: option.splits)

lemma periodic_refresh_noop:
  assumes "py_not (map_of (dashboard_message_ids (bot l)) owner) \<or>
           py_not (map_of (status_message_ids (bot l)) owner)"
  shows "effects (periodic_refresh w owner l) = effects l @ [SaveState]"
    and "dashboard_message_ids (bot (periodic_refresh w owner l)) = dashboard_message_ids (bot l)"
    and "status_message_ids (bot (periodic_refresh w owner l)) = status_message_ids (bot l)"
    and "command_message_ids (bot (periodic_refresh w owner l)) = command_message_ids (bot l)"
  using assms
  by (simp_all add: periodic_refresh_def Let_def case_prod_beta update_dashboard_for_chat_noop
      ingest_metrics_ids split: sum.splits)

text \<open>
  Claim C5, as amended. When the dashboard id or the status id of the chat is unset (absent, or
  0), \<^verbatim>\<open>update_dashboard_for_chat\<close> makes no call and returns the state as it was, and the
  periodic refresh of the main loop makes no API call and leaves the three id dictionaries as
  they were (it only saves the state). The command desk id is not consulted.
\<close>

theorem refresh_noop_without_dashboard_or_status:
  "py_not (map_of (dashboard_message_ids s) chat) \<or> py_not (map_of (status_message_ids s) chat) \<longrightarrow>
     update_dashboard_for_chat api s chat msg img = (s, [])
   \<and> effects (periodic_refresh w chat (l\<lparr>bot := s\<rparr>)) = effects l @ [SaveState]
   \<and> dashboard_message_ids (bot (periodic_refresh w chat (l\<lparr>bot := s\<rparr>))) = dashboard_message_ids s
   \<and> status_message_ids (bot (periodic_refresh w chat (l\<lparr>bot := s\<rparr>))) = status_message_ids s
   \<and> command_message_ids (bot (periodic_refresh w chat (l\<lparr>bot := s\<rparr>))) = command_message_ids s"
  using periodic_refresh_noop [of "l\<lparr>bot := s\<rparr>" chat w]
  by (simp add: update_dashboard_for_chat_noop)

text \<open>
  The amended statement on a chat with a status message and no dashboard message.
\<close>

theorem refresh_noop_without_dashboard_or_status_witness:
  "update_dashboard_for_chat cx_telegram (empty_state\<lparr>status_message_ids := [(7, 12)]\<rparr>) 7 ''status'' ''png''
     = (empty_state\<lparr>status_message_ids := [(7, 12)]\<rparr>, [])
   \<and> effects (periodic_refresh quiet_world 7
        (cached_loop\<lparr>bot := empty_state\<lparr>status_message_ids := [(7, 12)]\<rparr>\<rparr>)) = [SaveState]"
proof -
  have e: "effects cached_loop = []" by (simp add: cached_loop_def)
  show ?thesis
    using refresh_noop_without_dashboard_or_status
      [of "empty_state\<lparr>status_message_ids := [(7, 12)]\<rparr>" 7 cx_telegram "''status''" "''png''"
          quiet_world cached_loop]
    by (simp add: empty_state_def e)
qed

text \<open>
  Claim C5 as stated fails: with the command desk id unset and the other two set, the refresh
  edits, and on a missing dashboard message it sends a new photo and stores its id.
\<close>

theorem refresh_incomplete_triad_counterexample:
  "map_of (command_message_ids cx_state) 7 = None
   \<and> update_dashboard_for_chat cx_telegram cx_state 7 ''status'' ''png'' =
       (cx_state\<lparr>dashboard_message_ids := [(7, 99)]\<rparr>,
        [EditMessageMedia 7 11 ''png'' None, SendPhoto 7 [] ''png'' None,
         EditMessageText 7 12 ''status'' None])"
  by (simp add: update_dashboard_for_chat_def cx_state_def cx_telegram_def empty_state_def
      Let_def text_eval sent_message_id_def)

subsection \<open>The command desk and owner-only access\<close>

lemma service_control_simps [simp]:
  "service_control SystemRestartConduit" "service_control SystemStopConduit"
  "service_control SystemReboot" "service_control RunUpdateScript"
  "\<not> service_control SaveState" "\<not> service_control (Api c)"
  by (simp_all add: service_control_def)

lemma filter_service_control_Api [simp]: "filter service_control (map Api cs) = []"
  by (induction cs) simp_all

lemma effects_desk:
  "effects (desk w chat msg kb l) =
     effects l @ map Api (snd (edit_command_desk (telegram_api w) (bot l) chat msg kb))"
  by (simp add: desk_def Let_def split: prod.splits)

lemma bot_desk:
  "bot (desk w chat msg kb l) = fst (edit_command_desk (telegram_api w) (bot l) chat msg kb)"
  by (simp add: desk_def Let_def split: prod.splits)

lemma effects_answer:
  "effects (answer_callback_query cq msg l) = effects l @ [Api (AnswerCallbackQuery cq msg)]"
  by (simp add: answer_callback_query_def emit_def)

lemma effects_save: "effects (save_state l) = effects l @ [SaveState]"
  by (simp add: save_state_def)

lemma effects_emit: "effects (emit es l) = effects l @ es"
  by (simp add: emit_def)

lemma handle_button_restart_cancel:
  "handle_button w owner upd cq chat ''restart_conduit_cancel'' l =
     (answer_callback_query cq ACK_CANCELLED
        (desk w chat CMD_DESK_MAIN_TEXT build_main_keyboard l), None)"
  by (simp add: handle_button_def)

lemma handle_button_stop_cancel:
  "handle_button w owner upd cq chat ''stop_conduit_cancel'' l =
     (answer_callback_query cq ACK_CANCELLED
        (desk w chat CMD_DESK_MAIN_TEXT build_main_keyboard l), None)"
  by (simp add: handle_button_def)

lemma handle_button_update_cancel:
  "handle_button w owner upd cq chat ''update_cancel'' l =
     (answer_callback_query cq ACK_CANCELLED
        (desk w chat CONFIGS_TEXT build_configs_keyboard l), None)"
  by (simp add: handle_button_def)

lemma handle_button_reboot_cancel:
  "handle_button w owner upd cq chat ''reboot_cancel'' l =
     (l, Some (NameError ''cmd_desk_main_text''))"
  by (simp add: handle_button_def)

lemma handle_button_stop_confirm:
  "filter service_control
     (effects (fst (handle_button w owner upd cq chat ''stop_conduit_confirm'' l))) =
     filter service_control (effects l) @ [SystemStopConduit]"
  "snd (handle_button w owner upd cq chat ''stop_conduit_confirm'' l) = None"
  "\<exists>pre. effects (fst (handle_button w owner upd cq chat ''stop_conduit_confirm'' l)) =
     pre @ [Api (AnswerCallbackQuery cq ACK_STOPPED)]"
  by (simp_all add: handle_button_def Let_def emit_def effects_answer effects_desk
      split: prod.splits)

lemma handle_update_owner_press:
  "handle_update w owner (press uid cq owner data) l =
     (case handle_button w owner (press uid cq owner data) cq owner data (seen uid l) of
        (l2, None) \<Rightarrow> (save_state l2, None)
      | (l2, Some e) \<Rightarrow> (l2, Some e))"
  by (simp add: handle_update_def press_def seen_def Let_def)

lemma effects_seen [simp]: "effects (seen uid l) = effects l"
  by (simp add: seen_def)

lemma state_file_seen [simp]: "state_file (seen uid l) = state_file l"
  by (simp add: seen_def)

text \<open>
  Claim C4. The owner presses a button. For \<^verbatim>\<open>restart_conduit_cancel\<close> and \<^verbatim>\<open>stop_conduit_cancel\<close> the
  handler runs \<^verbatim>\<open>edit_command_desk\<close> with the main text and keyboard, acknowledges with "Cancelled."
  and saves; for \<^verbatim>\<open>update_cancel\<close> the same with the Configs text and keyboard; none of them adds
  a service-control effect; with the desk id stored and the edit accepted, the effects of a cancel
  are the edit, the acknowledgment and the save. For \<^verbatim>\<open>stop_conduit_confirm\<close> exactly one
  service-control effect is added, the stop. For \<^verbatim>\<open>reboot_cancel\<close> the handler raises \<^verbatim>\<open>NameError\<close> before the desk is
  edited: no call, no acknowledgment, no save; here the code departs from the claim.
\<close>

theorem confirmation_gating:
  "(\<forall>data. data = ''restart_conduit_cancel'' \<or> data = ''stop_conduit_cancel'' \<longrightarrow>
      snd (handle_update w owner (press uid cq owner data) l) = None
    \<and> effects (fst (handle_update w owner (press uid cq owner data) l)) =
        effects l @
        map Api (snd (edit_command_desk (telegram_api w) (bot (seen uid l)) owner
                        CMD_DESK_MAIN_TEXT build_main_keyboard)) @
        [Api (AnswerCallbackQuery cq ACK_CANCELLED), SaveState]
    \<and> filter service_control (effects (fst (handle_update w owner (press uid cq owner data) l))) =
        filter service_control (effects l))
   \<and> snd (handle_update w owner (press uid cq owner ''update_cancel'') l) = None
   \<and> effects (fst (handle_update w owner (press uid cq owner ''update_cancel'') l)) =
        effects l @
        map Api (snd (edit_command_desk (telegram_api w) (bot (seen uid l)) owner
                        CONFIGS_TEXT build_configs_keyboard)) @
        [Api (AnswerCallbackQuery cq ACK_CANCELLED), SaveState]
   \<and> filter service_control
        (effects (fst (handle_update w owner (press uid cq owner ''update_cancel'') l))) =
        filter service_control (effects l)
   \<and> snd (handle_update w owner (press uid cq owner ''stop_conduit_confirm'') l) = None
   \<and> filter service_control
        (effects (fst (handle_update w owner (press uid cq owner ''stop_conduit_confirm'') l))) =
        filter service_control (effects l) @ [SystemStopConduit]
   \<and> handle_update w owner (press uid cq owner ''reboot_cancel'') l =
        (seen uid l, Some (NameError ''cmd_desk_main_text''))
   \<and> effects (seen uid l) = effects l
   \<and> (\<forall>c r. map_of (command_message_ids (bot l)) owner = Some c \<and> c \<noteq> 0 \<and>
          telegram_api w (EditMessageText owner c CMD_DESK_MAIN_TEXT (Some build_main_keyboard)) =
            Inr r \<longrightarrow>
        effects (fst (handle_update w owner (press uid cq owner ''stop_conduit_cancel'') l)) =
          effects l @
          [Api (EditMessageText owner c CMD_DESK_MAIN_TEXT (Some build_main_keyboard)),
           Api (AnswerCallbackQuery cq ACK_CANCELLED), SaveState]
      \<and> command_message_ids
          (bot (fst (handle_update w owner (press uid cq owner ''stop_conduit_cancel'') l))) =
          command_message_ids (bot l))"
proof -
  have desk_ok: "effects (fst (handle_update w owner (press uid cq owner ''stop_conduit_cancel'') l)) =
          effects l @
          [Api (EditMessageText owner c CMD_DESK_MAIN_TEXT (Some build_main_keyboard)),
           Api (AnswerCallbackQuery cq ACK_CANCELLED), SaveState]
      \<and> command_message_ids
          (bot (fst (handle_update w owner (press uid cq owner ''stop_conduit_cancel'') l))) =
          command_message_ids (bot l)"
    if "map_of (command_message_ids (bot l)) owner = Some c \<and> c \<noteq> 0 \<and>
          telegram_api w (EditMessageText owner c CMD_DESK_MAIN_TEXT (Some build_main_keyboard)) =
            Inr r" for c r
  proof -
    from that have "edit_command_desk (telegram_api w) (bot (seen uid l)) owner
        CMD_DESK_MAIN_TEXT build_main_keyboard =
        (bot (seen uid l),
         [EditMessageText owner c CMD_DESK_MAIN_TEXT (Some build_main_keyboard)])"
      by (simp add: edit_command_desk_def seen_def Let_def)
    then show ?thesis
      by (simp add: handle_update_owner_press handle_button_stop_cancel effects_save
          effects_answer effects_desk save_state_def answer_callback_query_def emit_def
          bot_desk seen_def)
  qed
  have cancel_main: "snd (handle_update w owner (press uid cq owner data) l) = None
    \<and> effects (fst (handle_update w owner (press uid cq owner data) l)) =
        effects l @
        map Api (snd (edit_command_desk (telegram_api w) (bot (seen uid l)) owner
                        CMD_DESK_MAIN_TEXT build_main_keyboard)) @
        [Api (AnswerCallbackQuery cq ACK_CANCELLED), SaveState]
    \<and> filter service_control (effects (fst (handle_update w owner (press uid cq owner data) l))) =
        filter service_control (effects l)"
    if "data = ''restart_conduit_cancel'' \<or> data = ''stop_conduit_cancel''" for data
    using that
    by (auto simp: handle_update_owner_press handle_button_restart_cancel
        handle_button_stop_cancel effects_save effects_answer effects_desk)
  have cancel_configs: "snd (handle_update w owner (press uid cq owner ''update_cancel'') l) = None
   \<and> effects (fst (handle_update w owner (press uid cq owner ''update_cancel'') l)) =
        effects l @
        map Api (snd (edit_command_desk (telegram_api w) (bot (seen uid l)) owner
                        CONFIGS_TEXT build_configs_keyboard)) @
        [Api (AnswerCallbackQuery cq ACK_CANCELLED), SaveState]
   \<and> filter service_control
        (effects (fst (handle_update w owner (press uid cq owner ''update_cancel'') l))) =
        filter service_control (effects l)"
    by (simp add: handle_update_owner_press handle_button_update_cancel effects_save
        effects_answer effects_desk)
  have stop: "snd (handle_update w owner (press uid cq owner ''stop_conduit_confirm'') l) = None
   \<and> filter service_control
        (effects (fst (handle_update w owner (press uid cq owner ''stop_conduit_confirm'') l))) =
        filter service_control (effects l) @ [SystemStopConduit]"
  proof -
    obtain l2 ex where r: "handle_button w owner (press uid cq owner ''stop_conduit_confirm'') cq
        owner ''stop_conduit_confirm'' (seen uid l) = (l2, ex)"
      by (cases "handle_button w owner (press uid cq owner ''stop_conduit_confirm'') cq
        owner ''stop_conduit_confirm'' (seen uid l)")
    from r handle_button_stop_confirm(2)
      [of w owner "press uid cq owner ''stop_conduit_confirm''" cq owner "seen uid l"]
    have ex: "ex = None" by simp
    from r handle_button_stop_confirm(1)
      [of w owner "press uid cq owner ''stop_conduit_confirm''" cq owner "seen uid l"]
    have fx: "filter service_control (effects l2) =
        filter service_control (effects l) @ [SystemStopConduit]" by simp
    show ?thesis
      by (simp add: handle_update_owner_press r ex fx effects_save)
  qed
  have reboot: "handle_update w owner (press uid cq owner ''reboot_cancel'') l =
        (seen uid l, Some (NameError ''cmd_desk_main_text''))"
    by (simp add: handle_update_owner_press handle_button_reboot_cancel)
  have unchanged: "effects (seen uid l) = effects l"
    by simp
  from cancel_main cancel_configs stop reboot unchanged desk_ok show ?thesis
    by blast
qed

text \<open>
  The theorem in the quiet world, owner 7: a cancelled stop, a confirmed stop and a cancelled
  reboot.
\<close>

theorem confirmation_gating_witness:
  "snd (handle_update quiet_world 7 (press (Some 41) ''q'' 7 ''stop_conduit_cancel'') cached_loop) = None
   \<and> filter service_control
       (effects (fst (handle_update quiet_world 7 (press (Some 41) ''q'' 7 ''stop_conduit_cancel'')
          cached_loop))) = []
   \<and> filter service_control
       (effects (fst (handle_update quiet_world 7 (press (Some 41) ''q'' 7 ''stop_conduit_confirm'')
          cached_loop))) = [SystemStopConduit]
   \<and> snd (handle_update quiet_world 7 (press (Some 41) ''q'' 7 ''reboot_cancel'') cached_loop) =
       Some (NameError ''cmd_desk_main_text'')
   \<and> effects (fst (handle_update quiet_world 7 (press (Some 41) ''q'' 7 ''reboot_cancel'') cached_loop))
       = []
   \<and> effects (fst (handle_update quiet_world 7 (press (Some 41) ''q'' 7 ''stop_conduit_cancel'')
        cached_loop)) =
       [Api (EditMessageText 7 13 CMD_DESK_MAIN_TEXT (Some build_main_keyboard)),
        Api (AnswerCallbackQuery ''q'' ACK_CANCELLED), SaveState]"
proof -
  have c: "effects cached_loop = []" "map_of (command_message_ids (bot cached_loop)) 7 = Some 13"
    by (simp_all add: cached_loop_def empty_state_def)
  have q: "telegram_api quiet_world
      (EditMessageText 7 13 CMD_DESK_MAIN_TEXT (Some build_main_keyboard)) = Inr None"
    by (simp add: quiet_world_def)
  show ?thesis
    using confirmation_gating [of quiet_world 7 "Some 41" "''q''" cached_loop] c q
    by simp
qed

text \<open>
  Claim C7. An update from a chat that is not the owner: a button press is answered with one
  acknowledgment, a \<^verbatim>\<open>/start\<close> message with one plain reply, both carrying the rejection text, and
  nothing else is done. The saved document is not written; of the dictionary in memory only
  \<^verbatim>\<open>last_update_id\<close> changes, so no per-chat entry is written; and the effect is the same
  whatever the dictionary holds, so none is read.
\<close>

theorem non_owner_rejected:
  "chat \<noteq> owner \<longrightarrow>
     snd (handle_update w owner (press uid cq chat data) l) = None
   \<and> effects (fst (handle_update w owner (press uid cq chat data) l)) =
       effects l @ [Api (AnswerCallbackQuery cq NOT_AUTHORIZED_TEXT)]
   \<and> state_file (fst (handle_update w owner (press uid cq chat data) l)) = state_file l
   \<and> bot (fst (handle_update w owner (press uid cq chat data) l)) = (bot l)\<lparr>last_update_id := uid\<rparr>
   \<and> (\<forall>b. effects (fst (handle_update w owner (press uid cq chat data) (l\<lparr>bot := b\<rparr>))) =
            effects l @ [Api (AnswerCallbackQuery cq NOT_AUTHORIZED_TEXT)])
   \<and> (prefix ''/start'' msg \<longrightarrow>
        snd (handle_update w owner (message uid chat msg) l) = None
      \<and> effects (fst (handle_update w owner (message uid chat msg) l)) =
          effects l @ [Api (SendMessage chat NOT_AUTHORIZED_TEXT None)]
      \<and> state_file (fst (handle_update w owner (message uid chat msg) l)) = state_file l
      \<and> bot (fst (handle_update w owner (message uid chat msg) l)) = (bot l)\<lparr>last_update_id := uid\<rparr>
      \<and> (\<forall>b. effects (fst (handle_update w owner (message uid chat msg) (l\<lparr>bot := b\<rparr>))) =
               effects l @ [Api (SendMessage chat NOT_AUTHORIZED_TEXT None)]))"
  by (simp add: handle_update_def press_def message_def seen_def Let_def
      answer_callback_query_def emit_def)

text \<open>
  The theorem for owner 7 and a stranger 8 who presses a button and sends \<^verbatim>\<open>/start\<close>.
\<close>

theorem non_owner_rejected_witness:
  "effects (fst (handle_update quiet_world 7 (press (Some 41) ''q'' 8 ''stop_conduit_confirm'')
      cached_loop)) = [Api (AnswerCallbackQuery ''q'' NOT_AUTHORIZED_TEXT)]
   \<and> state_file (fst (handle_update quiet_world 7 (press (Some 41) ''q'' 8 ''stop_conduit_confirm'')
      cached_loop)) = None
   \<and> effects (fst (handle_update quiet_world 7 (message (Some 42) 8 ''/start now'') cached_loop)) =
       [Api (SendMessage 8 NOT_AUTHORIZED_TEXT None)]
   \<and> state_file (fst (handle_update quiet_world 7 (message (Some 42) 8 ''/start now'') cached_loop))
       = None"
proof -
  have a: "(8::int) \<noteq> 7" by simp
  have b: "prefix ''/start'' ''/start now''" by simp
  have c: "effects cached_loop = []" "state_file cached_loop = None"
    by (simp_all add: cached_loop_def)
  show ?thesis
    using non_owner_rejected [of 8 7 quiet_world "Some 41" "''q''" "''stop_conduit_confirm''" cached_loop "''/start now''"]
      non_owner_rejected [of 8 7 quiet_world "Some 42" "''q''" "''stop_conduit_confirm''" cached_loop "''/start now''"]
      a b c
    by simp
qed

subsection \<open>A failed fetch in the periodic refresh\<close>

lemma fetch_metrics_failure: "fetch_metrics p_float None = Inr []"
  by (simp add: fetch_metrics_def)

lemma periodic_refresh_failure_cache:
  "last_good_metrics (bot (periodic_refresh (w\<lparr>metrics_body := None\<rparr>) owner l)) = Some []"
proof -
  have keep: "last_good_metrics (fst (update_dashboard_for_chat api s chat msg img)) = last_good_metrics s"
    for api s chat msg img
    by (simp add: update_dashboard_for_chat_def Let_def split: sum.splits option.splits)
  show ?thesis
    by (simp add: periodic_refresh_def fetch_metrics_failure Let_def case_prod_beta keep)
qed

lemma status_of_empty_sample:
  "build_status_message cap (Some []) mc bw svc cached lu ld cs =
     cap [] mc bw lu ld cs @ [LF] @ [LF] @ ''Real-time:'' @ [LF] @
     ''  Conduit: STOPPED  '' @ [CHR 0xC2, CHR 0xB7] @ ''  Conduit service: '' @
     (if svc = ''inactive'' then ''inactive (stopped)''
      else if svc = ''failed'' then ''failed (check logs)'' else svc) @
     [LF] @ ''  Server (bot): running''"
  by (simp add: build_status_message_def Let_def metrics_get_def)

lemma fetch_metrics_trailing_space:
  "fetch_metrics float_of_decimal (Some ''conduit_is_live '') = Inl ValueError"
  by (simp add: fetch_metrics_def fetch_metrics_line_def py_split_none_1_def py_isspace_def
      py_is_linebreak_def)

lemma periodic_refresh_raise:
  "effects (periodic_refresh (quiet_world\<lparr>metrics_body := Some ''conduit_is_live ''\<rparr>) 7
        cached_loop) =
       [Api (EditMessageMedia 7 11 ''png'' None),
        Api (EditMessageText 7 12
               (''clients 5'' @ [LF] @ [LF] @ ''Real-time:'' @ [LF] @
                ''  Conduit: unreachable (service may be down)  '' @ [CHR 0xC2, CHR 0xB7] @
                ''  Conduit service: active'' @ [LF] @ ''  Server (bot): running'') None),
        SaveState]
   \<and> last_good_metrics (bot (periodic_refresh
        (quiet_world\<lparr>metrics_body := Some ''conduit_is_live ''\<rparr>) 7 cached_loop)) =
       Some [(''conduit_connected_clients'', Fin 5), (''conduit_is_live'', Fin 1)]"
  by (simp add: periodic_refresh_def quiet_world_def cached_loop_def fetch_metrics_trailing_space
        conduit_limits_def load_conduit_env_def build_views_def build_status_message_def
        update_dashboard_for_chat_def py_not_def Let_def empty_state_def get_or_def
        metrics_get_def py_trunc_def py_str_def str_nat.simps)

text \<open>
  Claim C3. When the request to the metrics endpoint fails, \<^verbatim>\<open>fetch_metrics\<close> returns the empty
  dictionary, not \<^verbatim>\<open>None\<close>. The periodic refresh then stores that empty dictionary as the last
  good sample, and the status text is built from it: the caption of the empty dictionary and the
  line STOPPED, whatever the cache held. In the quiet world, with 5 clients cached, the text sent
  shows 0 clients and STOPPED, and the cache is empty afterwards: here the code departs from the
  claim. The text "unreachable" with the cached numbers, and an untouched cache, are what the
  refresh does when \<^verbatim>\<open>fetch_metrics\<close> raises, as on a body whose line has a name and no value.
\<close>

theorem fetch_failure_replaces_cache:
  "fetch_metrics p_float None = Inr []
   \<and> last_good_metrics (bot (periodic_refresh (w\<lparr>metrics_body := None\<rparr>) owner l)) = Some []
   \<and> build_status_message cap (Some []) mc bw svc cached lu ld cs =
       cap [] mc bw lu ld cs @ [LF] @ [LF] @ ''Real-time:'' @ [LF] @
       ''  Conduit: STOPPED  '' @ [CHR 0xC2, CHR 0xB7] @ ''  Conduit service: '' @
       (if svc = ''inactive'' then ''inactive (stopped)''
        else if svc = ''failed'' then ''failed (check logs)'' else svc) @
       [LF] @ ''  Server (bot): running''
   \<and> last_good_metrics (bot cached_loop) =
       Some [(''conduit_connected_clients'', Fin 5), (''conduit_is_live'', Fin 1)]
   \<and> metrics_body quiet_world = None
   \<and> last_good_metrics (bot (periodic_refresh quiet_world 7 cached_loop)) = Some []
   \<and> effects (periodic_refresh quiet_world 7 cached_loop) =
       [Api (EditMessageMedia 7 11 ''png'' None),
        Api (EditMessageText 7 12
               (''clients 0'' @ [LF] @ [LF] @ ''Real-time:'' @ [LF] @
                ''  Conduit: STOPPED  '' @ [CHR 0xC2, CHR 0xB7] @ ''  Conduit service: active'' @
                [LF] @ ''  Server (bot): running'') None),
        SaveState]
   \<and> fetch_metrics float_of_decimal (Some ''conduit_is_live '') = Inl ValueError
   \<and> effects (periodic_refresh (quiet_world\<lparr>metrics_body := Some ''conduit_is_live ''\<rparr>) 7
        cached_loop) =
       [Api (EditMessageMedia 7 11 ''png'' None),
        Api (EditMessageText 7 12
               (''clients 5'' @ [LF] @ [LF] @ ''Real-time:'' @ [LF] @
                ''  Conduit: unreachable (service may be down)  '' @ [CHR 0xC2, CHR 0xB7] @
                ''  Conduit service: active'' @ [LF] @ ''  Server (bot): running'') None),
        SaveState]
   \<and> last_good_metrics (bot (periodic_refresh
        (quiet_world\<lparr>metrics_body := Some ''conduit_is_live ''\<rparr>) 7 cached_loop)) =
       Some [(''conduit_connected_clients'', Fin 5), (''conduit_is_live'', Fin 1)]"
proof -
  have q: "quiet_world\<lparr>metrics_body := None\<rparr> = quiet_world"
    by (simp add: quiet_world_def)
  have cache: "last_good_metrics (bot (periodic_refresh quiet_world 7 cached_loop)) = Some []"
    using periodic_refresh_failure_cache [of quiet_world 7 cached_loop] by (simp add: q)
  have eff: "effects (periodic_refresh quiet_world 7 cached_loop) =
       [Api (EditMessageMedia 7 11 ''png'' None),
        Api (EditMessageText 7 12
               (''clients 0'' @ [LF] @ [LF] @ ''Real-time:'' @ [LF] @
                ''  Conduit: STOPPED  '' @ [CHR 0xC2, CHR 0xB7] @ ''  Conduit service: active'' @
                [LF] @ ''  Server (bot): running'') None),
        SaveState]"
    by (simp add: periodic_refresh_def quiet_world_def cached_loop_def fetch_metrics_failure
        conduit_limits_def load_conduit_env_def build_views_def status_of_empty_sample
        update_dashboard_for_chat_def py_not_def Let_def empty_state_def get_or_def
        metrics_get_def py_trunc_def py_str_def str_nat.simps)
  have before: "last_good_metrics (bot cached_loop) =
       Some [(''conduit_connected_clients'', Fin 5), (''conduit_is_live'', Fin 1)]"
    by (simp add: cached_loop_def empty_state_def)
  have body: "metrics_body quiet_world = None"
    by (simp add: quiet_world_def)
  from fetch_metrics_failure periodic_refresh_failure_cache status_of_empty_sample
    cache eff before body fetch_metrics_trailing_space periodic_refresh_raise
  show ?thesis by simp
qed

end
